theory Spec2Isabelle
  imports Complex_Main "HOL-Library.Char_ord" "HOL-Library.List_Lexorder"
    "HOL-Library.Product_Lexorder"
begin

section \<open>Depot locations: the travel-time model, Locations, Countries and tours\<close>

text \<open>
  A shallow embedding of \<^verbatim>\<open>country.py\<close>. Python's exceptions are values of the type
  \<open>error\<close>; a function that can raise returns \<open>error + 'a\<close>, with \<open>Inl\<close> for the
  exception.

  The cost law \<^verbatim>\<open>travel_time\<close> is stated once over the real numbers. Everything that
  goes through \<^verbatim>\<open>Location\<close> and \<^verbatim>\<open>Country\<close> computes on Python floats: IEEE 754
  binary64 values, with every addition, subtraction, multiplication, division and square
  root rounded to the nearest float (ties to even), overflow to infinity, and NaN. The
  two functions of the C library that the code calls, \<^verbatim>\<open>pow\<close> (for \<^verbatim>\<open>x ** 2\<close>) and
  \<^verbatim>\<open>cos\<close>, are not correctly rounded on every platform and are parameters of the model.
\<close>

subsection \<open>Errors\<close>

datatype error =
  ValueError | TypeError | IndexError | KeyError | ZeroDivisionError | OverflowError

subsection \<open>The cost model: \<^verbatim>\<open>travel_time\<close> over the reals\<close>



subsection \<open>Python floats\<close>

text \<open>
  A float is a finite number, an infinity or NaN. The two zeros compare equal and are
  one value here.
\<close>

datatype pyfloat = Fin real | PInf | NInf | NaN

text \<open>
  Rounding to the nearest binary64 value, ties to even: \<open>binade x\<close> is the exponent of
  \<open>x\<close>, not below that of the smallest normal number, so that the spacing of the floats
  around \<open>x\<close> is \<open>2 powi (binade x - 52)\<close>; a result of magnitude \<open>2 powi 1024\<close> is an
  overflow.
\<close>

definition round_half_even :: "real \<Rightarrow> int" where
  "round_half_even x =
     (let f = \<lfloor>x\<rfloor>; d = x - of_int f in
      if d < 1 / 2 then f else if 1 / 2 < d then f + 1 else if even f then f else f + 1)"

definition binade :: "real \<Rightarrow> int" where
  "binade x = max \<lfloor>log 2 \<bar>x\<bar>\<rfloor> (- 1022)"

definition rnd :: "real \<Rightarrow> pyfloat" where
  "rnd x =
     (if x = 0 then Fin 0
      else
        let u = 2 powi (binade x - 52);
            y = of_int (round_half_even (x / u)) * u
        in if 2 powi 1024 \<le> \<bar>y\<bar> then (if 0 < y then PInf else NInf) else Fin y)"

text \<open>
  The comparisons \<^verbatim>\<open><\<close> and \<^verbatim>\<open>==\<close>: every comparison with NaN is false.
\<close>

fun flt :: "pyfloat \<Rightarrow> pyfloat \<Rightarrow> bool" where
  "flt NaN y = False"
| "flt x NaN = False"
| "flt (Fin a) (Fin b) = (a < b)"
| "flt (Fin a) PInf = True"
| "flt (Fin a) NInf = False"
| "flt PInf y = False"
| "flt NInf NInf = False"
| "flt NInf y = True"

fun feq :: "pyfloat \<Rightarrow> pyfloat \<Rightarrow> bool" where
  "feq NaN y = False"
| "feq x NaN = False"
| "feq x y = (x = y)"

text \<open>
  The arithmetic of IEEE 754 on these values.
\<close>

fun fneg :: "pyfloat \<Rightarrow> pyfloat" where
  "fneg (Fin a) = Fin (- a)"
| "fneg PInf = NInf"
| "fneg NInf = PInf"
| "fneg NaN = NaN"

fun fadd :: "pyfloat \<Rightarrow> pyfloat \<Rightarrow> pyfloat" where
  "fadd NaN y = NaN"
| "fadd x NaN = NaN"
| "fadd (Fin a) (Fin b) = rnd (a + b)"
| "fadd PInf NInf = NaN"
| "fadd NInf PInf = NaN"
| "fadd PInf y = PInf"
| "fadd NInf y = NInf"
| "fadd (Fin a) y = y"

definition fsub :: "pyfloat \<Rightarrow> pyfloat \<Rightarrow> pyfloat" where
  "fsub x y = fadd x (fneg y)"

definition inf_of_sign :: "bool \<Rightarrow> pyfloat" where
  "inf_of_sign positive = (if positive then PInf else NInf)"

fun fmul :: "pyfloat \<Rightarrow> pyfloat \<Rightarrow> pyfloat" where
  "fmul NaN y = NaN"
| "fmul x NaN = NaN"
| "fmul (Fin a) (Fin b) = rnd (a * b)"
| "fmul (Fin a) PInf = (if a = 0 then NaN else inf_of_sign (0 < a))"
| "fmul (Fin a) NInf = (if a = 0 then NaN else inf_of_sign (a < 0))"
| "fmul PInf (Fin b) = (if b = 0 then NaN else inf_of_sign (0 < b))"
| "fmul NInf (Fin b) = (if b = 0 then NaN else inf_of_sign (b < 0))"
| "fmul PInf PInf = PInf"
| "fmul NInf NInf = PInf"
| "fmul PInf NInf = NInf"
| "fmul NInf PInf = NInf"

text \<open>
  \<^verbatim>\<open>x / y\<close> on floats raises \<^verbatim>\<open>ZeroDivisionError\<close> when \<^verbatim>\<open>y == 0\<close>, whatever \<open>x\<close> is.
\<close>

fun fdiv :: "pyfloat \<Rightarrow> pyfloat \<Rightarrow> error + pyfloat" where
  "fdiv x (Fin b) =
     (if b = 0 then Inl ZeroDivisionError
      else
        (case x of
           Fin a \<Rightarrow> Inr (rnd (a / b))
         | PInf \<Rightarrow> Inr (inf_of_sign (0 < b))
         | NInf \<Rightarrow> Inr (inf_of_sign (b < 0))
         | NaN \<Rightarrow> Inr NaN))"
| "fdiv NaN y = Inr NaN"
| "fdiv x NaN = Inr NaN"
| "fdiv (Fin a) y = Inr (Fin 0)"
| "fdiv x y = Inr NaN"

text \<open>
  \<^verbatim>\<open>a / b\<close> on two integers is the float nearest to the quotient; it raises
  \<^verbatim>\<open>OverflowError\<close> when that is no finite float. \<^verbatim>\<open>float(i)\<close> on an integer does the
  same with the integer itself.
\<close>

definition finite_or_overflow :: "pyfloat \<Rightarrow> error + pyfloat" where
  "finite_or_overflow x = (case x of Fin v \<Rightarrow> Inr (Fin v) | _ \<Rightarrow> Inl OverflowError)"

definition int_truediv :: "int \<Rightarrow> int \<Rightarrow> error + pyfloat" where
  "int_truediv a b =
     (if b = 0 then Inl ZeroDivisionError else finite_or_overflow (rnd (of_int a / of_int b)))"

definition int_to_float :: "int \<Rightarrow> error + pyfloat" where
  "int_to_float i = finite_or_overflow (rnd (of_int i))"

text \<open>
  \<^verbatim>\<open>math.sqrt\<close> raises \<^verbatim>\<open>ValueError\<close> (math domain error) on a negative argument; the
  square root is correctly rounded.
\<close>

fun math_sqrt :: "pyfloat \<Rightarrow> error + pyfloat" where
  "math_sqrt NaN = Inr NaN"
| "math_sqrt PInf = Inr PInf"
| "math_sqrt NInf = Inl ValueError"
| "math_sqrt (Fin a) = (if a < 0 then Inl ValueError else Inr (rnd (sqrt a)))"

text \<open>
  The C library: \<open>pow2 lm x\<close> is what \<^verbatim>\<open>pow(x, 2.0)\<close> returns on a finite \<open>x\<close> (an
  infinity when the square overflows) and \<open>cosine lm x\<close> is what \<^verbatim>\<open>cos(x)\<close> returns.
  \<^verbatim>\<open>x ** 2\<close> raises \<^verbatim>\<open>OverflowError\<close> when the square of a finite number overflows, and
  \<^verbatim>\<open>math.cos\<close> raises \<^verbatim>\<open>ValueError\<close> on an infinity.
\<close>

record libm =
  pow2 :: "real \<Rightarrow> pyfloat"
  cosine :: "real \<Rightarrow> pyfloat"

fun fpow2 :: "libm \<Rightarrow> pyfloat \<Rightarrow> error + pyfloat" where
  "fpow2 lm NaN = Inr NaN"
| "fpow2 lm PInf = Inr PInf"
| "fpow2 lm NInf = Inr PInf"
| "fpow2 lm (Fin a) = finite_or_overflow (pow2 lm a)"

fun math_cos :: "libm \<Rightarrow> pyfloat \<Rightarrow> error + pyfloat" where
  "math_cos lm NaN = Inr NaN"
| "math_cos lm PInf = Inl ValueError"
| "math_cos lm NInf = Inl ValueError"
| "math_cos lm (Fin a) = Inr (cosine lm a)"

text \<open>
  A C library that rounds the square and the cosine correctly; \<^verbatim>\<open>cos(0.0)\<close> is 1.0 in
  it, as in every C library.
\<close>

definition libm_cr :: libm where
  "libm_cr = \<lparr>pow2 = (\<lambda>x. rnd (x * x)), cosine = (\<lambda>x. rnd (cos x))\<rparr>"

text \<open>
  \<^verbatim>\<open>math.pi\<close> is the float nearest to \<open>\<pi>\<close>.
\<close>

definition math_pi :: real where
  "math_pi = 884279719003555 / 281474976710656"

text \<open>
  \<^verbatim>\<open>travel_time\<close> as \<^verbatim>\<open>Country.travel_time\<close> calls it: the distance and the speed are
  floats, the flag and the number of locations are integers, and the expression
  \<^verbatim>\<open>(1 / 3600) * (distance / speed) * (1 + (different_regions * n) / 10)\<close> is evaluated on
  floats from left to right.
\<close>

definition travel_time_fl :: "pyfloat \<Rightarrow> int \<Rightarrow> int \<Rightarrow> pyfloat \<Rightarrow> error + pyfloat" where
  "travel_time_fl distance different_regions locations_in_dest_region speed =
     (if flt distance (Fin 0) then Inl ValueError
      else if different_regions \<noteq> 0 \<and> different_regions \<noteq> 1 then Inl ValueError
      else
        let n = max 1 locations_in_dest_region in
        (case int_truediv 1 3600 of
           Inl e \<Rightarrow> Inl e
         | Inr hour \<Rightarrow>
             (case fdiv distance speed of
                Inl e \<Rightarrow> Inl e
              | Inr seconds \<Rightarrow>
                  (case int_truediv (different_regions * n) 10 of
                     Inl e \<Rightarrow> Inl e
                   | Inr penalty \<Rightarrow>
                       Inr (fmul (fmul hour seconds) (fadd (Fin 1) penalty))))))"

definition default_speed :: pyfloat where
  "default_speed = Fin 4.75"

subsection \<open>Locations\<close>

record location =
  name :: string
  region :: string
  r :: pyfloat
  theta :: pyfloat
  depot :: bool

text \<open>
  The values a caller can pass where the code tests the type at run time
  (\<^verbatim>\<open>isinstance\<close>) or converts (\<^verbatim>\<open>float\<close>).
\<close>

datatype pyval =
  PyNone
  | PyBool bool
  | PyInt int
  | PyFloat pyfloat
  | PyStr string
  | PyLoc location

text \<open>
  What the Python runtime does with text is a parameter: \<open>float_of_str\<close> is \<^verbatim>\<open>float\<close>
  on text (\<open>None\<close> when it raises \<^verbatim>\<open>ValueError\<close>), \<open>str_split\<close> is \<^verbatim>\<open>str.split()\<close> and
  \<open>str_capitalize\<close> is \<^verbatim>\<open>str.capitalize()\<close>, both defined on all of Unicode.
\<close>

record str_runtime =
  float_of_str :: "string \<Rightarrow> pyfloat option"
  str_split :: "string \<Rightarrow> string list"
  str_capitalize :: "string \<Rightarrow> string"

text \<open>
  \<^verbatim>\<open>float(v)\<close>: a float is itself, a boolean or an integer converts (an integer too large
  raises \<^verbatim>\<open>OverflowError\<close>), text converts when it parses and raises \<^verbatim>\<open>ValueError\<close>
  otherwise, and any other object raises \<^verbatim>\<open>TypeError\<close>.
\<close>

fun py_float :: "str_runtime \<Rightarrow> pyval \<Rightarrow> error + pyfloat" where
  "py_float rt (PyFloat x) = Inr x"
| "py_float rt (PyInt i) = int_to_float i"
| "py_float rt (PyBool b) = Inr (Fin (of_bool b))"
| "py_float rt (PyStr s) =
     (case float_of_str rt s of None \<Rightarrow> Inl ValueError | Some x \<Rightarrow> Inr x)"
| "py_float rt PyNone = Inl TypeError"
| "py_float rt (PyLoc l) = Inl TypeError"

text \<open>
  Normalisation of names: \<^verbatim>\<open>' '.join(word.capitalize() for word in s.split())\<close>.
\<close>

fun join_words :: "string list \<Rightarrow> string" where
  "join_words [] = []"
| "join_words [w] = w"
| "join_words (w # ws) = w @ '' '' @ join_words ws"

definition proper :: "str_runtime \<Rightarrow> string \<Rightarrow> string" where
  "proper rt s = join_words (map (str_capitalize rt) (str_split rt s))"

text \<open>
  On ASCII text, \<^verbatim>\<open>split\<close> and \<^verbatim>\<open>capitalize\<close> are these functions; \<open>ascii_runtime\<close> is
  a runtime that has them everywhere.
\<close>

definition ascii_space :: "char \<Rightarrow> bool" where
  "ascii_space ch =
     (let n = (of_char ch :: nat) in (9 \<le> n \<and> n \<le> 13) \<or> (28 \<le> n \<and> n \<le> 32))"

definition ascii_upper :: "char \<Rightarrow> char" where
  "ascii_upper ch =
     (let n = (of_char ch :: nat) in if 97 \<le> n \<and> n \<le> 122 then char_of (n - 32) else ch)"

definition ascii_lower :: "char \<Rightarrow> char" where
  "ascii_lower ch =
     (let n = (of_char ch :: nat) in if 65 \<le> n \<and> n \<le> 90 then char_of (n + 32) else ch)"

fun ascii_capitalize :: "string \<Rightarrow> string" where
  "ascii_capitalize [] = []"
| "ascii_capitalize (ch # cs) = ascii_upper ch # map ascii_lower cs"

fun ascii_split :: "string \<Rightarrow> string \<Rightarrow> string list" where
  "ascii_split [] w = (if w = [] then [] else [w])"
| "ascii_split (ch # cs) w =
     (if ascii_space ch then (if w = [] then ascii_split cs [] else w # ascii_split cs [])
      else ascii_split cs (w @ [ch]))"

definition ascii_runtime :: "(string \<Rightarrow> pyfloat option) \<Rightarrow> str_runtime" where
  "ascii_runtime parse =
     \<lparr>float_of_str = parse, str_split = (\<lambda>s. ascii_split s []),
      str_capitalize = ascii_capitalize\<rparr>"

datatype warning = NameCapitalized string string | RegionCapitalized string string | StyleNotice

text \<open>
  \<^verbatim>\<open>Location.__init__\<close>. The checks run in the order of the source: the depot flag, the
  radius, the angle, then name and region. The handler around \<^verbatim>\<open>float(r)\<close> catches
  \<^verbatim>\<open>ValueError\<close> only, so any other exception of the conversion leaves the constructor
  as it is. A NaN passes both range tests. The result is the new Location and the
  warnings issued.
\<close>

definition Location_init ::
  "str_runtime \<Rightarrow> pyval \<Rightarrow> pyval \<Rightarrow> pyval \<Rightarrow> pyval \<Rightarrow> pyval
     \<Rightarrow> error + (location \<times> warning list)" where
  "Location_init rt name_v region_v r_v theta_v depot_v =
     (case depot_v of
        PyBool dep \<Rightarrow>
          (case py_float rt r_v of
             Inl e \<Rightarrow> (if e = ValueError then Inl ValueError else Inl e)
           | Inr rr \<Rightarrow>
               if flt rr (Fin 0) then Inl ValueError
               else
                 (case py_float rt theta_v of
                    Inl e \<Rightarrow> (if e = ValueError then Inl ValueError else Inl e)
                  | Inr th \<Rightarrow>
                      if flt th (Fin (- math_pi)) \<or> flt (Fin math_pi) th then Inl ValueError
                      else
                        (case (name_v, region_v) of
                           (PyStr nm, PyStr rg) \<Rightarrow>
                             let proper_name = proper rt nm;
                                 proper_region = proper rt rg;
                                 w1 = (if proper_name \<noteq> nm
                                       then [NameCapitalized nm proper_name, StyleNotice] else []);
                                 w2 = (if proper_region \<noteq> rg
                                       then [RegionCapitalized rg proper_region, StyleNotice] else [])
                             in Inr (\<lparr>name = proper_name, region = proper_region, r = rr,
                                      theta = th, depot = dep\<rparr>, w1 @ w2)
                         | _ \<Rightarrow> Inl TypeError)))
      | _ \<Rightarrow> Inl TypeError)"

definition settlement :: "location \<Rightarrow> bool" where
  "settlement self = (\<not> depot self)"

text \<open>
  \<^verbatim>\<open>Location.distance_to\<close>: the law of cosines on polar coordinates, evaluated on floats
  in the order of the source: the two squares, their sum, \<^verbatim>\<open>2 * self.r\<close>, times
  \<^verbatim>\<open>other.r\<close>, the cosine, the product, the difference, the square root. An argument
  that is not a Location raises \<^verbatim>\<open>ValueError\<close>, and so does the square root when
  rounding has left the difference negative.
\<close>

definition distance_to :: "libm \<Rightarrow> location \<Rightarrow> pyval \<Rightarrow> error + pyfloat" where
  "distance_to lm self other =
     (case other of
        PyLoc b \<Rightarrow>
          (case fpow2 lm (r self) of
             Inl e \<Rightarrow> Inl e
           | Inr p1 \<Rightarrow>
               (case fpow2 lm (r b) of
                  Inl e \<Rightarrow> Inl e
                | Inr p2 \<Rightarrow>
                    (case math_cos lm (fsub (theta self) (theta b)) of
                       Inl e \<Rightarrow> Inl e
                     | Inr c \<Rightarrow>
                         math_sqrt
                           (fsub (fadd p1 p2) (fmul (fmul (fmul (Fin 2) (r self)) (r b)) c)))))
      | _ \<Rightarrow> Inl ValueError)"

text \<open>
  \<^verbatim>\<open>Location.__eq__\<close>: \<open>None\<close> stands for \<^verbatim>\<open>NotImplemented\<close>. \<open>py_eq\<close> is
  the operator \<^verbatim>\<open>==\<close> between two Locations.
\<close>

definition Location_eq :: "location \<Rightarrow> pyval \<Rightarrow> bool option" where
  "Location_eq self other =
     (case other of
        PyLoc b \<Rightarrow> Some ((name self, region self) = (name b, region b))
      | _ \<Rightarrow> None)"

definition py_eq :: "location \<Rightarrow> location \<Rightarrow> bool" where
  "py_eq a b = (Location_eq a (PyLoc b) = Some True)"

text \<open>
  \<^verbatim>\<open>Location.__hash__\<close>: the hash of the text \<^verbatim>\<open>name + region\<close>; the hash function of
  the Python runtime on text is the parameter \<open>h\<close>.
\<close>

definition Location_hash :: "(string \<Rightarrow> int) \<Rightarrow> location \<Rightarrow> int" where
  "Location_hash h self = h (name self @ region self)"

subsection \<open>Sets of Locations and membership\<close>

text \<open>
  \<^verbatim>\<open>x in xs\<close> on a tuple or list of Locations compares with \<^verbatim>\<open>==\<close>.
\<close>

definition py_in :: "location \<Rightarrow> location list \<Rightarrow> bool" where
  "py_in x xs = list_ex (\<lambda>y. py_eq y x) xs"

text \<open>
  A Python set of Locations holds one element of each class of \<^verbatim>\<open>==\<close>: adding an element
  equal to one already there changes nothing. The set is modelled as the list of its
  elements in the order they were added.
\<close>

definition set_add :: "location \<Rightarrow> location list \<Rightarrow> location list" where
  "set_add x s = (if py_in x s then s else s @ [x])"

definition py_set :: "location list \<Rightarrow> location list" where
  "py_set xs = foldl (\<lambda>s x. set_add x s) [] xs"

definition set_discard :: "location \<Rightarrow> location list \<Rightarrow> location list" where
  "set_discard x s = filter (\<lambda>y. \<not> py_eq y x) s"

subsection \<open>Countries\<close>

record country =
  all_locations :: "location list"

text \<open>\<^verbatim>\<open>Country.__init__\<close>\<close>

definition Country_init :: "location list \<Rightarrow> error + country" where
  "Country_init list_of_locations =
     (let location_set = py_set list_of_locations in
      if length location_set \<noteq> length list_of_locations then Inl ValueError
      else Inr \<lparr>all_locations = list_of_locations\<rparr>)"

definition settlements :: "country \<Rightarrow> location list" where
  "settlements self = filter (\<lambda>loc. \<not> depot loc) (all_locations self)"

definition n_settlements :: "country \<Rightarrow> nat" where
  "n_settlements self = length (settlements self)"

definition depots :: "country \<Rightarrow> location list" where
  "depots self = filter (\<lambda>loc. depot loc) (all_locations self)"

definition n_depots :: "country \<Rightarrow> nat" where
  "n_depots self = length (depots self)"

text \<open>\<^verbatim>\<open>Country.travel_time\<close>\<close>

definition Country_travel_time ::
  "libm \<Rightarrow> country \<Rightarrow> location \<Rightarrow> location \<Rightarrow> error + pyfloat" where
  "Country_travel_time lm self start_location end_location =
     (if \<not> py_in start_location (all_locations self) then Inl ValueError
      else if \<not> py_in end_location (all_locations self) then Inl ValueError
      else
        (case distance_to lm start_location (PyLoc end_location) of
           Inl e \<Rightarrow> Inl e
         | Inr distance \<Rightarrow>
             let different_regions =
                   (if region start_location \<noteq> region end_location then 1 else 0);
                 locations_in_dest_region =
                   length (filter (\<lambda>loc. region loc = region end_location) (all_locations self))
             in travel_time_fl distance different_regions (int locations_in_dest_region)
                  default_speed))"

text \<open>
  \<^verbatim>\<open>Country.fastest_trip_from\<close>. A candidate is a Location or an index into the
  settlements. The first loop builds the set of candidates and raises \<^verbatim>\<open>IndexError\<close> at
  the first index out of range; the second loop collects the travel times and skips a
  candidate whose travel time raises \<^verbatim>\<open>ValueError\<close>, whether for a Location that is not
  in the Country or for a math domain error of the square root; any other exception
  leaves the function. The result \<open>None\<close> is the pair \<^verbatim>\<open>(None, None)\<close>.
\<close>

datatype cand = Loc location | Idx int

fun resolve :: "country \<Rightarrow> cand \<Rightarrow> error + location" where
  "resolve self (Idx i) =
     (if i < 0 \<or> i \<ge> int (length (settlements self)) then Inl IndexError
      else Inr (settlements self ! nat i))"
| "resolve self (Loc l) = Inr l"

fun process_candidates :: "country \<Rightarrow> cand list \<Rightarrow> location list \<Rightarrow> error + location list" where
  "process_candidates self [] locations_to_check = Inr locations_to_check"
| "process_candidates self (x # rest) locations_to_check =
     (case resolve self x of
        Inl e \<Rightarrow> Inl e
      | Inr l \<Rightarrow> process_candidates self rest (set_add l locations_to_check))"

fun collect_times ::
  "libm \<Rightarrow> country \<Rightarrow> location \<Rightarrow> location list \<Rightarrow> error + (location \<times> pyfloat) list" where
  "collect_times lm self current_location [] = Inr []"
| "collect_times lm self current_location (loc # rest) =
     (case Country_travel_time lm self current_location loc of
        Inr time \<Rightarrow>
          (case collect_times lm self current_location rest of
             Inl e \<Rightarrow> Inl e
           | Inr ts \<Rightarrow> Inr ((loc, time) # ts))
      | Inl e \<Rightarrow>
          if e = ValueError then collect_times lm self current_location rest else Inl e)"

text \<open>
  The sort key \<^verbatim>\<open>(x[1], x[0].name, x[0].region)\<close> and the comparison \<^verbatim>\<open><\<close> of two
  such tuples: the first components that are not \<^verbatim>\<open>==\<close> decide.
\<close>

definition trip_key :: "location \<times> pyfloat \<Rightarrow> pyfloat \<times> string \<times> string" where
  "trip_key x = (snd x, name (fst x), region (fst x))"

fun key_lt :: "pyfloat \<times> string \<times> string \<Rightarrow> pyfloat \<times> string \<times> string \<Rightarrow> bool" where
  "key_lt (t1, n1, g1) (t2, n2, g2) =
     (if \<not> feq t1 t2 then flt t1 t2 else if n1 \<noteq> n2 then n1 < n2 else g1 < g2)"

text \<open>
  \<^verbatim>\<open>sorted\<close> is a stable sort that compares with \<^verbatim>\<open><\<close> only. It is modelled by the
  stable insertion sort, which gives the list \<^verbatim>\<open>sorted\<close> gives whenever \<^verbatim>\<open><\<close> is a
  linear order on the keys, that is, whenever no time is NaN. With a NaN among the times
  the comparison is no order, and the list that Python returns depends on the order in
  which the set of candidates is iterated.
\<close>

fun py_insort :: "location \<times> pyfloat \<Rightarrow> (location \<times> pyfloat) list \<Rightarrow> (location \<times> pyfloat) list" where
  "py_insort x [] = [x]"
| "py_insort x (y # ys) =
     (if key_lt (trip_key x) (trip_key y) then x # y # ys else y # py_insort x ys)"

definition py_sorted :: "(location \<times> pyfloat) list \<Rightarrow> (location \<times> pyfloat) list" where
  "py_sorted xs = foldl (\<lambda>acc x. py_insort x acc) [] xs"

definition fastest_trip_from ::
  "libm \<Rightarrow> country \<Rightarrow> location \<Rightarrow> cand list option \<Rightarrow> error + (location \<times> pyfloat) option" where
  "fastest_trip_from lm self current_location potential_locations =
     (let potential =
            (case potential_locations of
               None \<Rightarrow> map Loc (settlements self)
             | Some p \<Rightarrow> p)
      in
        case process_candidates self potential [] of
          Inl e \<Rightarrow> Inl e
        | Inr s \<Rightarrow>
            let locations_to_check = set_discard current_location s in
            if locations_to_check = [] then Inr None
            else
              (case collect_times lm self current_location locations_to_check of
                 Inl e \<Rightarrow> Inl e
               | Inr travel_times \<Rightarrow>
                   if travel_times = [] then Inr None
                   else Inr (Some (hd (py_sorted travel_times)))))"

text \<open>
  \<^verbatim>\<open>Country.nn_tour\<close>. The loop state is the current location, the set of unvisited
  settlements, the tour so far and the time so far. When \<^verbatim>\<open>fastest_trip_from\<close> returns
  \<^verbatim>\<open>(None, None)\<close> the addition \<^verbatim>\<open>total_time += None\<close> raises \<^verbatim>\<open>TypeError\<close>, and
  \<^verbatim>\<open>unvisited.remove\<close> raises \<^verbatim>\<open>KeyError\<close> for an element that is not in the set.
\<close>

function nn_loop ::
  "libm \<Rightarrow> country \<Rightarrow> location \<Rightarrow> location list \<Rightarrow> location list \<Rightarrow> pyfloat
     \<Rightarrow> error + (location list \<times> pyfloat \<times> location)" where
  "nn_loop lm self current unvisited tour total_time =
     (if unvisited = [] then Inr (tour, total_time, current)
      else
        (case fastest_trip_from lm self current (Some (map Loc unvisited)) of
           Inl e \<Rightarrow> Inl e
         | Inr None \<Rightarrow> Inl TypeError
         | Inr (Some (next_loc, time)) \<Rightarrow>
             if \<not> py_in next_loc unvisited then Inl KeyError
             else nn_loop lm self next_loc (set_discard next_loc unvisited)
                    (tour @ [next_loc]) (fadd total_time time)))"
  by pat_completeness auto
termination
proof (relation "measure (\<lambda>(lm, self, current, unvisited, tour, total_time). length unvisited)")
  show "wf (measure (\<lambda>(lm, self, current, unvisited, tour, total_time). length unvisited))"
    by simp
next
  fix lm :: libm and self :: country and current :: location
    and unvisited tour :: "location list" and total_time :: pyfloat and x2 x2a and x y
  assume "\<not> \<not> py_in x unvisited"
  then obtain z where z: "z \<in> set unvisited" "py_eq z x"
    by (auto simp: py_in_def list_ex_iff)
  have "length (filter (\<lambda>y. \<not> py_eq y x) unvisited) < length unvisited"
    by (rule length_filter_less [OF z(1)]) (simp add: z(2))
  then show "((lm, self, x, set_discard x unvisited, tour @ [x], fadd total_time y),
              (lm, self, current, unvisited, tour, total_time))
             \<in> measure (\<lambda>(lm, self, current, unvisited, tour, total_time). length unvisited)"
    by (simp add: set_discard_def)
qed

declare nn_loop.simps [simp del]

definition nn_tour :: "libm \<Rightarrow> country \<Rightarrow> location \<Rightarrow> error + (location list \<times> pyfloat)" where
  "nn_tour lm self starting_depot =
     (if \<not> py_in starting_depot (depots self) then Inl ValueError
      else if n_settlements self = 0 then Inr ([starting_depot, starting_depot], Fin 0)
      else
        (case nn_loop lm self starting_depot (py_set (settlements self)) [starting_depot] (Fin 0) of
           Inl e \<Rightarrow> Inl e
         | Inr (tour, total_time, current) \<Rightarrow>
             (case Country_travel_time lm self current starting_depot of
                Inl e \<Rightarrow> Inl e
              | Inr final_time \<Rightarrow>
                  Inr (tour @ [starting_depot], fadd total_time final_time))))"

text \<open>
  \<^verbatim>\<open>Country.best_depot_site\<close>. The best time starts at \<^verbatim>\<open>float('inf')\<close> and a depot
  replaces the best one when \<^verbatim>\<open>time < best_time\<close>, which is false for a time that is
  NaN or infinite. The loop state is the best time, the best depot and the best tour.
  Printing does not change the value returned, so \<open>display\<close> is a parameter the result
  does not depend on.
\<close>

definition depot_key :: "location \<Rightarrow> string \<times> string" where
  "depot_key x = (name x, region x)"

fun best_loop ::
  "libm \<Rightarrow> country \<Rightarrow> location list \<Rightarrow> pyfloat \<times> location option \<times> location list option
     \<Rightarrow> error + (pyfloat \<times> location option \<times> location list option)" where
  "best_loop lm self [] st = Inr st"
| "best_loop lm self (d # rest) (best_time, best_depot, best_tour) =
     (case nn_tour lm self d of
        Inl e \<Rightarrow> Inl e
      | Inr (tour, time) \<Rightarrow>
          if flt time best_time
          then best_loop lm self rest (time, Some d, Some tour)
          else best_loop lm self rest (best_time, best_depot, best_tour))"

definition best_depot_site :: "libm \<Rightarrow> country \<Rightarrow> bool \<Rightarrow> error + location option" where
  "best_depot_site lm self display =
     (if depots self = [] then Inl ValueError
      else
        (case best_loop lm self (sort_key depot_key (depots self)) (PInf, None, None) of
           Inl e \<Rightarrow> Inl e
         | Inr (best_time, best_depot, best_tour) \<Rightarrow> Inr best_depot))"

subsection \<open>Example Locations and Countries\<close>

text \<open>
  The Locations of the test suite (with the angle of Riverwood set to 0) and a second
  Riverwood at other coordinates.
\<close>

definition riverwood :: location where
  "riverwood =
     \<lparr>name = ''Riverwood'', region = ''Whiterun Hold'', r = Fin 100, theta = Fin 0,
      depot = False\<rparr>"

definition riverwood_moved :: location where
  "riverwood_moved =
     \<lparr>name = ''Riverwood'', region = ''Whiterun Hold'', r = Fin 200, theta = Fin 1,
      depot = True\<rparr>"

definition whiterun :: location where
  "whiterun =
     \<lparr>name = ''Whiterun'', region = ''Whiterun Hold'', r = Fin 200, theta = Fin 0.5,
      depot = True\<rparr>"

definition helgen :: location where
  "helgen =
     \<lparr>name = ''Helgen'', region = ''Falkreath Hold'', r = Fin 150, theta = Fin (- 0.5),
      depot = False\<rparr>"

definition test_country :: country where
  "test_country = \<lparr>all_locations = [riverwood, whiterun, helgen]\<rparr>"

text \<open>
  A depot at the origin and two settlements at the same point, one unit away: the travel
  times from the depot tie.
\<close>

definition hub :: location where
  "hub = \<lparr>name = ''Hub'', region = ''Plain'', r = Fin 0, theta = Fin 0, depot = True\<rparr>"

definition tie_a :: location where
  "tie_a = \<lparr>name = ''A'', region = ''Plain'', r = Fin 1, theta = Fin 0, depot = False\<rparr>"

definition tie_b :: location where
  "tie_b = \<lparr>name = ''B'', region = ''Plain'', r = Fin 1, theta = Fin 0, depot = False\<rparr>"

definition tie_country :: country where
  "tie_country = \<lparr>all_locations = [hub, tie_b, tie_a]\<rparr>"

text \<open>
  A depot at radius \<^verbatim>\<open>0.3\<close> and a settlement at radius \<^verbatim>\<open>0.3000000000000002\<close>, both at
  angle 0 and in one region. The radii are the two floats those literals denote.
\<close>

definition near_depot :: location where
  "near_depot =
     \<lparr>name = ''D'', region = ''R'', r = Fin (5404319552844595 / 18014398509481984),
      theta = Fin 0, depot = True\<rparr>"

definition near_settlement :: location where
  "near_settlement =
     \<lparr>name = ''S'', region = ''R'', r = Fin (5404319552844599 / 18014398509481984),
      theta = Fin 0, depot = False\<rparr>"

definition near_country :: country where
  "near_country = \<lparr>all_locations = [near_depot, near_settlement]\<rparr>"

text \<open>
  A depot and a settlement at radius \<^verbatim>\<open>1e154\<close>, and a Location at radius \<^verbatim>\<open>1e200\<close>; the
  numbers are the floats those literals denote.
\<close>

definition float_1e154 :: real where
  "float_1e154 =
     10000000000000000369475456880582265409809179829842688451922778552150543659347219597216513109705408327446511753687232667314337003349573404171046192448274432"

definition float_1e200 :: real where
  "float_1e200 =
     99999999999999996973312221251036165947450327545502362648241750950346848435554075534196338404706251868027512415973882408182135734368278484639385041047239877871023591066789981811181813306167128854888448"

definition far_depot :: location where
  "far_depot =
     \<lparr>name = ''D'', region = ''R'', r = Fin float_1e154, theta = Fin 0, depot = True\<rparr>"

definition far_settlement :: location where
  "far_settlement =
     \<lparr>name = ''S'', region = ''R'', r = Fin float_1e154, theta = Fin 0, depot = False\<rparr>"

definition far_country :: country where
  "far_country = \<lparr>all_locations = [far_depot, far_settlement]\<rparr>"

definition remote :: location where
  "remote =
     \<lparr>name = ''Remote'', region = ''R'', r = Fin float_1e200, theta = Fin 0, depot = False\<rparr>"

text \<open>
  A Location at radius \<^verbatim>\<open>2.759\<close>, and a C library whose \<^verbatim>\<open>pow\<close> returns, for the square
  of that radius, the float just below the nearest one (\<^verbatim>\<open>2.759 ** 2\<close> is
  \<^verbatim>\<open>7.612080999999999\<close> where \<^verbatim>\<open>2.759 * 2.759\<close> is \<^verbatim>\<open>7.612081\<close>).
\<close>

definition float_2759 :: real where
  "float_2759 = 6212715685957599 / 2251799813685248"

definition place_2759 :: location where
  "place_2759 =
     \<lparr>name = ''P'', region = ''R'', r = Fin float_2759, theta = Fin 0, depot = False\<rparr>"

definition libm_ulp :: libm where
  "libm_ulp =
     \<lparr>pow2 = (\<lambda>x. if x = float_2759 then Fin (8570441288778507 / 1125899906842624)
                     else rnd (x * x)),
      cosine = (\<lambda>x. rnd (cos x))\<rparr>"

subsection \<open>Two notions used in the statements\<close>

text \<open>
  The candidates \<^verbatim>\<open>fastest_trip_from\<close> chooses from, in the words of its contract: the
  Location \<open>l\<close> occurs in the list of candidates with no equal Location before it (of
  several equal candidates the set keeps the one added first), and \<open>l\<close> is not equal to
  the current location.
\<close>

definition remaining_candidate :: "location list \<Rightarrow> location \<Rightarrow> location \<Rightarrow> bool" where
  "remaining_candidate ls current l =
     ((\<exists>pre post. ls = pre @ l # post \<and> (\<forall>y \<in> set pre. \<not> py_eq y l)) \<and> \<not> py_eq l current)"

text \<open>
  On the floats that are not NaN, \<^verbatim>\<open><\<close> is the order of these ranks.
\<close>

fun rank :: "pyfloat \<Rightarrow> nat \<times> real" where
  "rank NInf = (0, 0)"
| "rank (Fin a) = (1, a)"
| "rank PInf = (2, 0)"
| "rank NaN = (3, 0)"

section \<open>Rounding\<close>

lemma binade_eq:
  assumes "2 powi e \<le> \<bar>x\<bar>" and "\<bar>x\<bar> < 2 powi (e + 1)" and "- 1022 \<le> e"
  shows "binade x = e"
proof -
  have pos: "0 < \<bar>x\<bar>" using assms(1) by (smt (verit) zero_less_power_int)
  have "(2::real) powr of_int e = 2 powi e" "(2::real) powr (of_int e + 1) = 2 powi (e + 1)"
    using powr_real_of_int' [of "2::real" e] powr_real_of_int' [of "2::real" "e + 1"] by simp_all
  then have "\<lfloor>log 2 \<bar>x\<bar>\<rfloor> = e"
    using assms(1,2) pos by (simp add: floor_log_eq_powr_iff)
  then show ?thesis using assms(3) by (simp add: binade_def)
qed

lemma rnd_eval:
  assumes "2 powi e \<le> \<bar>x\<bar>" and "\<bar>x\<bar> < 2 powi (e + 1)" and "- 1022 \<le> e"
    and "round_half_even (x / 2 powi (e - 52)) = m"
    and "\<bar>of_int m * 2 powi (e - 52)\<bar> < (2::real) powi 1024"
  shows "rnd x = Fin (of_int m * 2 powi (e - 52))"
proof -
  have "x \<noteq> 0" using assms(1) by (smt (verit) zero_less_power_int)
  then show ?thesis
    using assms(4,5) by (simp add: rnd_def binade_eq [OF assms(1-3)] Let_def)
qed

lemma round_half_even_of_int [simp]: "round_half_even (of_int m) = m"
  by (simp add: round_half_even_def)

lemma round_half_even_numeral [simp]: "round_half_even (numeral n) = numeral n"
  by (simp add: round_half_even_def)

lemma pw_split: "(2::real) powi e = 2 ^ 52 * 2 powi (e - 52)"
proof -
  have "(2::real) powi e = 2 powi (52 + (e - 52))" by simp
  also have "\<dots> = 2 powi 52 * 2 powi (e - 52)" by (subst power_int_add) simp_all
  finally show ?thesis by simp
qed

lemma round_half_even_ge_floor: "\<lfloor>x\<rfloor> \<le> round_half_even x"
  by (simp add: round_half_even_def Let_def)

lemma rnd_overflow:
  assumes "2 powi 1024 \<le> x"
  shows "rnd x = PInf"
proof -
  have pos: "0 < x" using assms by (smt (verit) zero_less_power_int)
  define e where "e = \<lfloor>log 2 \<bar>x\<bar>\<rfloor>"
  have lo: "(2::real) powr of_int e \<le> x"
    using floor_log_eq_powr_iff [of x 2 e] pos by (simp add: e_def)
  have "(2::real) powr 1024 \<le> x"
    using assms powr_real_of_int' [of "2::real" 1024] by simp
  then have "1024 \<le> log 2 x" using pos by (simp add: le_log_iff)
  then have e1024: "1024 \<le> e" using pos by (simp add: e_def le_floor_iff)
  then have b: "binade x = e" by (simp add: binade_def e_def)
  define u :: real where "u = 2 powi (e - 52)"
  have upos: "0 < u" by (simp add: u_def)
  have pe: "(2::real) powr of_int e = 2 powi e"
    using powr_real_of_int' [of "2::real" e] by simp
  have "(2::real) powi e = 2 ^ 52 * u"
    unfolding u_def by (rule pw_split)
  then have "2 ^ 52 * u \<le> x" using lo pe by simp
  then have "(2::real) ^ 52 \<le> x / u" using upos by (simp add: pos_le_divide_eq)
  then have "(2::int) ^ 52 \<le> \<lfloor>x / u\<rfloor>" by (simp add: le_floor_iff)
  then have "(2::int) ^ 52 \<le> round_half_even (x / u)"
    using round_half_even_ge_floor [of "x / u"] by linarith
  then have "(2::real) ^ 52 \<le> of_int (round_half_even (x / u))"
    by (metis of_int_le_iff of_int_numeral of_int_power)
  then have "2 ^ 52 * u \<le> of_int (round_half_even (x / u)) * u"
    using upos by simp
  moreover have "(2::real) powi 1024 \<le> 2 ^ 52 * u"
  proof -
    have "(2::real) powi 1024 \<le> 2 powi e" using e1024 by (intro power_int_increasing) simp_all
    also have "\<dots> = 2 ^ 52 * u" unfolding u_def by (rule pw_split)
    finally show ?thesis .
  qed
  ultimately have big: "2 powi 1024 \<le> of_int (round_half_even (x / u)) * u" by linarith
  then have "0 < of_int (round_half_even (x / u)) * u"
    by (smt (verit) zero_less_power_int)
  with big pos show ?thesis
    unfolding rnd_def b Let_def u_def [symmetric] by simp
qed

lemma rnd_0 [simp]: "rnd 0 = Fin 0"
  by (simp add: rnd_def)

lemma rnd_1 [simp]: "rnd 1 = Fin 1"
  using rnd_eval [of 0 1 "2 ^ 52"] by simp

lemma fadd_NaN [simp]: "fadd x NaN = NaN"
  by (cases x) simp_all

lemma fmul_NaN [simp]: "fmul x NaN = NaN"
  by (cases x) simp_all

section \<open>Equality, membership and sets of Locations\<close>

lemma py_eq_iff: "py_eq a b \<longleftrightarrow> name a = name b \<and> region a = region b"
  by (auto simp: py_eq_def Location_eq_def)

lemma py_eq_key: "py_eq a b \<longleftrightarrow> depot_key a = depot_key b"
  by (auto simp: py_eq_iff depot_key_def)

lemma py_in_iff: "py_in x xs \<longleftrightarrow> depot_key x \<in> depot_key ` set xs"
  unfolding py_in_def list_ex_iff py_eq_key image_iff by metis

lemma set_add_keys: "depot_key ` set (set_add x s) = insert (depot_key x) (depot_key ` set s)"
  by (auto simp: set_add_def py_in_iff)

lemma set_add_distinct: "distinct (map depot_key s) \<Longrightarrow> distinct (map depot_key (set_add x s))"
  by (auto simp: set_add_def py_in_iff)

lemma foldl_set_add_keys:
  "depot_key ` set (foldl (\<lambda>s x. set_add x s) acc xs) = depot_key ` set acc \<union> depot_key ` set xs"
  by (induction xs arbitrary: acc) (auto simp: set_add_keys)

lemma foldl_set_add_distinct:
  "distinct (map depot_key acc) \<Longrightarrow> distinct (map depot_key (foldl (\<lambda>s x. set_add x s) acc xs))"
  by (induction xs arbitrary: acc) (auto simp: set_add_distinct)

lemma foldl_set_add_subset:
  "set (foldl (\<lambda>s x. set_add x s) acc xs) \<subseteq> set acc \<union> set xs"
proof (induction xs arbitrary: acc)
  case Nil then show ?case by simp
next
  case (Cons x xs)
  have "set (set_add x acc) \<subseteq> insert x (set acc)" by (auto simp: set_add_def)
  with Cons[of "set_add x acc"] show ?case by auto
qed

lemma foldl_set_add_id:
  "distinct (map depot_key (acc @ xs)) \<Longrightarrow> foldl (\<lambda>s x. set_add x s) acc xs = acc @ xs"
proof (induction xs arbitrary: acc)
  case Nil then show ?case by simp
next
  case (Cons x xs)
  from Cons.prems have nin: "\<not> py_in x acc" by (auto simp: py_in_iff)
  from Cons.prems have "distinct (map depot_key ((acc @ [x]) @ xs))" by simp
  from Cons.IH[OF this] nin show ?case by (simp add: set_add_def)
qed

lemma py_set_keys: "depot_key ` set (py_set xs) = depot_key ` set xs"
  by (simp add: py_set_def foldl_set_add_keys)

lemma py_set_distinct: "distinct (map depot_key (py_set xs))"
  by (simp add: py_set_def foldl_set_add_distinct)

lemma py_set_subset: "set (py_set xs) \<subseteq> set xs"
  using foldl_set_add_subset[of "[]" xs] by (simp add: py_set_def)

lemma py_set_id: "distinct (map depot_key xs) \<Longrightarrow> py_set xs = xs"
  using foldl_set_add_id[of "[]" xs] by (simp add: py_set_def)

lemma length_py_set: "length (py_set xs) = card (depot_key ` set xs)"
proof -
  have "length (py_set xs) = length (map depot_key (py_set xs))" by simp
  also have "\<dots> = card (set (map depot_key (py_set xs)))"
    using py_set_distinct[of xs] by (simp only: distinct_card)
  also have "\<dots> = card (depot_key ` set xs)" by (simp add: py_set_keys)
  finally show ?thesis .
qed

lemma length_py_set_eq: "length (py_set xs) = length xs \<longleftrightarrow> distinct (map depot_key xs)"
proof
  assume "length (py_set xs) = length xs"
  then have "card (set (map depot_key xs)) = length (map depot_key xs)"
    by (simp add: length_py_set)
  then show "distinct (map depot_key xs)" by (rule card_distinct)
next
  assume "distinct (map depot_key xs)"
  then show "length (py_set xs) = length xs" by (simp add: py_set_id)
qed

lemma Country_init_iff:
  "Country_init locs = (if distinct (map depot_key locs) then Inr \<lparr>all_locations = locs\<rparr> else Inl ValueError)"
  by (simp add: Country_init_def Let_def length_py_set_eq)

lemma distinct_keys_nth:
  "distinct (map depot_key locs) \<longleftrightarrow> \<not> (\<exists>i j. i < j \<and> j < length locs \<and> py_eq (locs ! i) (locs ! j))"
proof
  assume d: "distinct (map depot_key locs)"
  show "\<not> (\<exists>i j. i < j \<and> j < length locs \<and> py_eq (locs ! i) (locs ! j))"
  proof
    assume "\<exists>i j. i < j \<and> j < length locs \<and> py_eq (locs ! i) (locs ! j)"
    then obtain i j where ij: "i < j" "j < length locs" "py_eq (locs ! i) (locs ! j)" by blast
    then have "map depot_key locs ! i = map depot_key locs ! j" by (simp add: py_eq_key)
    with d ij show False by (simp add: distinct_conv_nth)
  qed
next
  assume n: "\<not> (\<exists>i j. i < j \<and> j < length locs \<and> py_eq (locs ! i) (locs ! j))"
  show "distinct (map depot_key locs)"
    unfolding distinct_conv_nth
  proof (intro allI impI)
    fix i j assume a: "i < length (map depot_key locs)" "j < length (map depot_key locs)" "i \<noteq> j"
    show "map depot_key locs ! i \<noteq> map depot_key locs ! j"
    proof
      assume e: "map depot_key locs ! i = map depot_key locs ! j"
      with a have pe: "py_eq (locs ! i) (locs ! j)" "py_eq (locs ! j) (locs ! i)" by (simp_all add: py_eq_key)
      from a(3) consider "i < j" | "j < i" by linarith
      then show False using n a pe by cases auto
    qed
  qed
qed

section \<open>The nearest candidate\<close>

lemma process_candidates_ok:
  "\<forall>x \<in> set p. \<exists>l. resolve c x = Inr l \<Longrightarrow> \<exists>s. process_candidates c p acc = Inr s"
  by (induction p arbitrary: acc) auto

lemma process_candidates_inv:
  assumes "process_candidates c p acc = Inr s" and "distinct (map depot_key acc)"
  shows "distinct (map depot_key s)
    \<and> set acc \<subseteq> set s
    \<and> (\<forall>x \<in> set p. \<exists>l. resolve c x = Inr l \<and> py_in l s)
    \<and> (\<forall>l \<in> set s. l \<in> set acc \<or> (\<exists>x \<in> set p. resolve c x = Inr l))"
  using assms
proof (induction p arbitrary: acc)
  case Nil
  then show ?case by simp
next
  case (Cons x p)
  from Cons.prems(1) obtain l where l: "resolve c x = Inr l"
    and rest: "process_candidates c p (set_add l acc) = Inr s"
    by (auto split: sum.splits)
  have d: "distinct (map depot_key (set_add l acc))"
    using Cons.prems(2) by (rule set_add_distinct)
  note ih = Cons.IH [OF rest d]
  have sub: "set acc \<subseteq> set (set_add l acc)" by (auto simp: set_add_def)
  have lin: "py_in l (set_add l acc)"
    by (simp add: py_in_iff set_add_keys)
  have mono: "py_in l s"
    using lin ih by (auto simp: py_in_iff)
  have bk: "set (set_add l acc) \<subseteq> insert l (set acc)" by (auto simp: set_add_def)
  show ?case
  proof (intro conjI)
    show "distinct (map depot_key s)" using ih by simp
    show "set acc \<subseteq> set s" using ih sub by blast
    show "\<forall>x \<in> set (x # p). \<exists>l. resolve c x = Inr l \<and> py_in l s"
      using ih l mono by auto
    show "\<forall>l \<in> set s. l \<in> set acc \<or> (\<exists>x \<in> set (x # p). resolve c x = Inr l)"
    proof
      fix l' assume "l' \<in> set s"
      with ih have "l' \<in> set (set_add l acc) \<or> (\<exists>x \<in> set p. resolve c x = Inr l')" by blast
      then show "l' \<in> set acc \<or> (\<exists>x \<in> set (x # p). resolve c x = Inr l')"
        using bk l by auto
    qed
  qed
qed

lemma py_eq_trans: "py_eq a b \<Longrightarrow> py_eq b c \<Longrightarrow> py_eq a c"
  by (simp add: py_eq_iff)

lemma py_eq_sym: "py_eq a b \<longleftrightarrow> py_eq b a"
  by (auto simp: py_eq_iff)

lemma set_foldl_set_add:
  "set (foldl (\<lambda>s x. set_add x s) acc xs) =
     set acc \<union> {l. \<exists>pre post. xs = pre @ l # post \<and> (\<forall>y \<in> set acc \<union> set pre. \<not> py_eq y l)}"
proof (induction xs arbitrary: acc)
  case Nil
  then show ?case by simp
next
  case (Cons x xs)
  let ?F = "\<lambda>A zs. {l. \<exists>pre post. zs = pre @ l # post \<and> (\<forall>y \<in> A \<union> set pre. \<not> py_eq y l)}"
  have split: "?F A (x # xs) = (if \<forall>y \<in> A. \<not> py_eq y x then {x} else {}) \<union> ?F (insert x A) xs"
    for A
  proof (intro set_eqI iffI)
    fix l assume "l \<in> ?F A (x # xs)"
    then obtain pre post where e: "x # xs = pre @ l # post"
      and n: "\<forall>y \<in> A \<union> set pre. \<not> py_eq y l" by blast
    show "l \<in> (if \<forall>y \<in> A. \<not> py_eq y x then {x} else {}) \<union> ?F (insert x A) xs"
    proof (cases pre)
      case Nil
      with e n show ?thesis by auto
    next
      case (Cons p pre')
      with e have "p = x" "xs = pre' @ l # post" by simp_all
      with n Cons have "l \<in> ?F (insert x A) xs" by auto
      then show ?thesis by blast
    qed
  next
    fix l assume "l \<in> (if \<forall>y \<in> A. \<not> py_eq y x then {x} else {}) \<union> ?F (insert x A) xs"
    then consider "l = x" "\<forall>y \<in> A. \<not> py_eq y x" | "l \<in> ?F (insert x A) xs"
      by (auto split: if_splits)
    then show "l \<in> ?F A (x # xs)"
    proof cases
      case 1
      then have "x # xs = [] @ l # xs \<and> (\<forall>y \<in> A \<union> set []. \<not> py_eq y l)" by simp
      then show ?thesis by blast
    next
      case 2
      then obtain pre post where "xs = pre @ l # post"
        "\<forall>y \<in> insert x A \<union> set pre. \<not> py_eq y l" by blast
      then have "x # xs = (x # pre) @ l # post \<and> (\<forall>y \<in> A \<union> set (x # pre). \<not> py_eq y l)"
        by simp
      then show ?thesis by blast
    qed
  qed
  show ?case
  proof (cases "py_in x acc")
    case True
    then obtain a where a: "a \<in> set acc" "py_eq a x" by (auto simp: py_in_def list_ex_iff)
    have "?F (insert x (set acc)) xs = ?F (set acc) xs"
    proof (intro set_eqI iffI)
      fix l assume "l \<in> ?F (insert x (set acc)) xs"
      then show "l \<in> ?F (set acc) xs" by auto
    next
      fix l assume "l \<in> ?F (set acc) xs"
      then obtain pre post where e: "xs = pre @ l # post"
        and n: "\<forall>y \<in> set acc \<union> set pre. \<not> py_eq y l" by blast
      from n a have "\<not> py_eq x l" using py_eq_trans [of a x l] by blast
      with e n show "l \<in> ?F (insert x (set acc)) xs" by blast
    qed
    then have eqF: "?F (insert x (set acc)) xs = ?F (set acc) xs" .
    have c: "(if \<forall>y \<in> set acc. \<not> py_eq y x then {x} else {}) = {}" using a by auto
    have "set (foldl (\<lambda>s x. set_add x s) acc (x # xs)) = set (foldl (\<lambda>s x. set_add x s) acc xs)"
      using True by (simp add: set_add_def)
    also have "\<dots> = set acc \<union> ?F (set acc) xs" by (rule Cons.IH)
    also have "\<dots> = set acc \<union> ?F (set acc) (x # xs)"
      unfolding split [of "set acc"] c eqF by simp
    finally show ?thesis .
  next
    case False
    then have n: "\<forall>y \<in> set acc. \<not> py_eq y x" by (auto simp: py_in_def list_ex_iff)
    then have c: "(if \<forall>y \<in> set acc. \<not> py_eq y x then {x} else {}) = {x}" by simp
    have "set (foldl (\<lambda>s x. set_add x s) acc (x # xs))
            = set (foldl (\<lambda>s x. set_add x s) (acc @ [x]) xs)"
      using False by (simp add: set_add_def)
    also have "\<dots> = set (acc @ [x]) \<union> ?F (set (acc @ [x])) xs" by (rule Cons.IH)
    also have "\<dots> = set acc \<union> ({x} \<union> ?F (insert x (set acc)) xs)" by auto
    also have "\<dots> = set acc \<union> ?F (set acc) (x # xs)"
      unfolding split [of "set acc"] c by simp
    finally show ?thesis .
  qed
qed

lemma process_candidates_resolved:
  "list_all2 (\<lambda>x l. resolve c x = Inr l) p ls \<Longrightarrow>
     process_candidates c p acc = Inr (foldl (\<lambda>s x. set_add x s) acc ls)"
  by (induction arbitrary: acc rule: list_all2_induct) simp_all

lemma resolve_error: "resolve c x = Inl e \<Longrightarrow> e = IndexError"
  by (cases x) (auto split: if_splits)

lemma process_candidates_error:
  "\<exists>x \<in> set p. resolve c x = Inl IndexError \<Longrightarrow> process_candidates c p acc = Inl IndexError"
proof (induction p arbitrary: acc)
  case Nil
  then show ?case by simp
next
  case (Cons x p)
  show ?case
  proof (cases "resolve c x")
    case (Inl e)
    then show ?thesis using resolve_error [OF Inl] by simp
  next
    case (Inr l)
    with Cons.prems have "\<exists>x \<in> set p. resolve c x = Inl IndexError" by auto
    from Cons.IH [OF this] Inr show ?thesis by simp
  qed
qed

lemma set_discard_py_set:
  assumes "list_all2 (\<lambda>x l. resolve c x = Inr l) p ls"
    and "process_candidates c p [] = Inr s"
  shows "set (set_discard cur s) = {l. remaining_candidate ls cur l}"
proof -
  from process_candidates_resolved [OF assms(1), of "[]"] assms(2)
  have "s = foldl (\<lambda>s x. set_add x s) [] ls" by simp
  then have "set s = {l. \<exists>pre post. ls = pre @ l # post \<and> (\<forall>y \<in> set pre. \<not> py_eq y l)}"
    using set_foldl_set_add [of "[]" ls] by simp
  then show ?thesis by (auto simp: set_discard_def remaining_candidate_def)
qed

lemma set_map_filter: "set (List.map_filter f xs) = {y. \<exists>x \<in> set xs. f x = Some y}"
  by (induction xs) (auto simp: List.map_filter_simps split: option.splits)

lemma collect_times_eq:
  assumes "\<forall>l \<in> set xs. \<forall>e. Country_travel_time lm c cur l = Inl e \<longrightarrow> e = ValueError"
  shows "collect_times lm c cur xs =
     Inr (List.map_filter
            (\<lambda>l. case Country_travel_time lm c cur l of Inr t \<Rightarrow> Some (l, t) | Inl e \<Rightarrow> None) xs)"
  using assms
proof (induction xs)
  case Nil
  then show ?case by (simp add: List.map_filter_simps)
next
  case (Cons l xs)
  then have ih: "collect_times lm c cur xs =
     Inr (List.map_filter
            (\<lambda>l. case Country_travel_time lm c cur l of Inr t \<Rightarrow> Some (l, t) | Inl e \<Rightarrow> None) xs)"
    by simp
  show ?case
  proof (cases "Country_travel_time lm c cur l")
    case (Inl e)
    then have "e = ValueError" using Cons.prems by simp
    with Inl ih show ?thesis by (simp add: List.map_filter_simps)
  next
    case (Inr t)
    with ih show ?thesis by (simp add: List.map_filter_simps)
  qed
qed

lemma set_collect_times:
  assumes "\<forall>l \<in> set xs. \<forall>e. Country_travel_time lm c cur l = Inl e \<longrightarrow> e = ValueError"
  shows "\<exists>ts. collect_times lm c cur xs = Inr ts
           \<and> set ts = {(l, t). l \<in> set xs \<and> Country_travel_time lm c cur l = Inr t}"
proof -
  have "(case Country_travel_time lm c cur x of Inr t \<Rightarrow> Some (x, t) | Inl e \<Rightarrow> None) = Some (l, t)
          \<longleftrightarrow> x = l \<and> Country_travel_time lm c cur l = Inr t" for x l t
    by (cases "Country_travel_time lm c cur x") auto
  then have "set (List.map_filter
            (\<lambda>l. case Country_travel_time lm c cur l of Inr t \<Rightarrow> Some (l, t) | Inl e \<Rightarrow> None) xs)
          = {(l, t). l \<in> set xs \<and> Country_travel_time lm c cur l = Inr t}"
    unfolding set_map_filter by auto
  with collect_times_eq [OF assms] show ?thesis by blast
qed

lemma flt_rank: "x \<noteq> NaN \<Longrightarrow> y \<noteq> NaN \<Longrightarrow> flt x y \<longleftrightarrow> rank x < rank y"
  by (cases x; cases y) simp_all

lemma feq_rank: "x \<noteq> NaN \<Longrightarrow> y \<noteq> NaN \<Longrightarrow> feq x y \<longleftrightarrow> rank x = rank y"
  by (cases x; cases y) simp_all

lemma key_lt_rank:
  "t1 \<noteq> NaN \<Longrightarrow> t2 \<noteq> NaN \<Longrightarrow>
     key_lt (t1, n1, g1) (t2, n2, g2) \<longleftrightarrow> (rank t1, n1, g1) < (rank t2, n2, g2)"
  by (auto simp: flt_rank feq_rank)

lemma set_py_insort: "set (py_insort x xs) = insert x (set xs)"
  by (induction xs) auto

lemma set_py_sorted: "set (py_sorted xs) = set xs"
proof -
  have "set (foldl (\<lambda>acc x. py_insort x acc) acc xs) = set acc \<union> set xs" for acc
    by (induction xs arbitrary: acc) (auto simp: set_py_insort)
  then show ?thesis by (simp add: py_sorted_def)
qed

lemma sorted_py_insort:
  assumes "sorted (map (\<lambda>z. (rank (snd z), name (fst z), region (fst z))) xs)"
    and "snd x \<noteq> NaN" and "\<forall>z \<in> set xs. snd z \<noteq> NaN"
  shows "sorted (map (\<lambda>z. (rank (snd z), name (fst z), region (fst z))) (py_insort x xs))"
  using assms
proof (induction xs)
  case Nil
  then show ?case by simp
next
  case (Cons y ys)
  let ?k = "\<lambda>z. (rank (snd z), name (fst z), region (fst z))"
  have lt: "key_lt (trip_key x) (trip_key y) \<longleftrightarrow> ?k x < ?k y"
    using Cons.prems(2,3) key_lt_rank [of "snd x" "snd y"] by (simp add: trip_key_def)
  show ?case
  proof (cases "key_lt (trip_key x) (trip_key y)")
    case True
    then have "?k x \<le> ?k y" using lt by (simp add: less_imp_le del: less_eq_prod_simp less_prod_simp)
    moreover have "\<forall>z \<in> set ys. ?k y \<le> ?k z" using Cons.prems(1) by simp
    ultimately have "\<forall>z \<in> set (y # ys). ?k x \<le> ?k z"
      by (metis (no_types, lifting) order_trans set_ConsD)
    with True Cons.prems(1) show ?thesis by (simp del: less_eq_prod_simp less_prod_simp)
  next
    case False
    then have yx: "?k y \<le> ?k x" using lt by (simp add: not_less del: less_eq_prod_simp less_prod_simp)
    have ih: "sorted (map ?k (py_insort x ys))"
      using Cons.IH Cons.prems by simp
    have "\<forall>z \<in> set (py_insort x ys). ?k y \<le> ?k z"
      using Cons.prems(1) yx by (auto simp: set_py_insort simp del: less_eq_prod_simp less_prod_simp)
    with False ih show ?thesis by (simp del: less_eq_prod_simp less_prod_simp)
  qed
qed

lemma sorted_py_sorted:
  assumes "\<forall>z \<in> set xs. snd z \<noteq> NaN"
  shows "sorted (map (\<lambda>z. (rank (snd z), name (fst z), region (fst z))) (py_sorted xs))"
proof -
  let ?k = "\<lambda>z. (rank (snd z), name (fst z), region (fst z))"
  have "sorted (map ?k acc) \<Longrightarrow> \<forall>z \<in> set acc. snd z \<noteq> NaN \<Longrightarrow> \<forall>z \<in> set xs. snd z \<noteq> NaN
          \<Longrightarrow> sorted (map ?k (foldl (\<lambda>acc x. py_insort x acc) acc xs))" for acc
  proof (induction xs arbitrary: acc)
    case Nil
    then show ?case by simp
  next
    case (Cons x xs)
    have "sorted (map ?k (py_insort x acc))"
      using sorted_py_insort [of acc x] Cons.prems by simp
    moreover have "\<forall>z \<in> set (py_insort x acc). snd z \<noteq> NaN"
      using Cons.prems by (simp add: set_py_insort)
    ultimately show ?case using Cons.IH [of "py_insort x acc"] Cons.prems by simp
  qed
  from this [of "[]"] assms show ?thesis by (simp add: py_sorted_def)
qed

lemma hd_py_sorted_min:
  assumes "xs \<noteq> []" and "\<forall>z \<in> set xs. snd z \<noteq> NaN"
  shows "hd (py_sorted xs) \<in> set xs
    \<and> (\<forall>y \<in> set xs. \<not> key_lt (trip_key y) (trip_key (hd (py_sorted xs))))"
proof -
  let ?k = "\<lambda>z. (rank (snd z), name (fst z), region (fst z))"
  let ?ys = "py_sorted xs"
  have ne: "?ys \<noteq> []" using assms(1) set_py_sorted [of xs] by (metis set_empty)
  then obtain z zs where z: "?ys = z # zs" by (cases ?ys) auto
  have "sorted (map ?k ?ys)" by (rule sorted_py_sorted [OF assms(2)])
  with z have "\<forall>y \<in> set zs. ?k z \<le> ?k y" by simp
  then have le: "\<forall>y \<in> set xs. ?k z \<le> ?k y"
    using z set_py_sorted [of xs] by (metis order_refl set_ConsD)
  have zin: "z \<in> set xs" using z set_py_sorted [of xs] by (metis list.set_intros(1))
  have "\<not> key_lt (trip_key y) (trip_key z)" if "y \<in> set xs" for y
  proof -
    have "snd y \<noteq> NaN" "snd z \<noteq> NaN" using that zin assms(2) by simp_all
    then have "key_lt (trip_key y) (trip_key z) \<longleftrightarrow> ?k y < ?k z"
      using key_lt_rank [of "snd y" "snd z"] by (simp add: trip_key_def)
    moreover have "?k z \<le> ?k y" using le that by blast
    ultimately show ?thesis by (simp add: not_less del: less_eq_prod_simp less_prod_simp)
  qed
  with zin z show ?thesis by simp
qed

lemma finite_or_overflow_error: "finite_or_overflow x = Inl e \<Longrightarrow> e = OverflowError"
  by (cases x) (simp_all add: finite_or_overflow_def)

lemma fpow2_error: "fpow2 lm x = Inl e \<Longrightarrow> e = OverflowError"
  by (cases x) (auto dest: finite_or_overflow_error)

lemma math_cos_error: "math_cos lm x = Inl e \<Longrightarrow> e = ValueError"
  by (cases x) auto

lemma math_sqrt_error: "math_sqrt x = Inl e \<Longrightarrow> e = ValueError"
  by (cases x) (auto split: if_splits)

lemma distance_to_error:
  "distance_to lm a x = Inl e \<Longrightarrow> e = ValueError \<or> e = OverflowError"
  by (auto simp: distance_to_def split: pyval.splits sum.splits
      dest: fpow2_error math_cos_error math_sqrt_error)

lemma fdiv_default_speed: "\<exists>q. fdiv x default_speed = Inr q"
  by (cases x) (simp_all add: default_speed_def)

lemma int_truediv_error: "b \<noteq> 0 \<Longrightarrow> int_truediv a b = Inl e \<Longrightarrow> e = OverflowError"
  by (auto simp: int_truediv_def dest: finite_or_overflow_error)

lemma travel_time_fl_error:
  assumes "travel_time_fl d dr n default_speed = Inl e"
  shows "e = ValueError \<or> e = OverflowError"
proof -
  obtain q where q: "fdiv d default_speed = Inr q" using fdiv_default_speed by blast
  show ?thesis
    using assms int_truediv_error [of 3600 1 e] int_truediv_error [of 10 "dr * max 1 n" e]
    by (auto simp: travel_time_fl_def Let_def q split: if_splits sum.splits)
qed

lemma Country_travel_time_error:
  "Country_travel_time lm c a b = Inl e \<Longrightarrow> e = ValueError \<or> e = OverflowError"
  by (auto simp: Country_travel_time_def Let_def split: if_splits sum.splits
      dest: distance_to_error travel_time_fl_error)

lemma fastest_trip_from_unfold:
  assumes "process_candidates c (case pot of None \<Rightarrow> map Loc (settlements c) | Some p \<Rightarrow> p) [] = Inr s"
    and "collect_times lm c cur (set_discard cur s) = Inr ts"
  shows "fastest_trip_from lm c cur pot =
           (if ts = [] then Inr None else Inr (Some (hd (py_sorted ts))))"
proof (cases "set_discard cur s = []")
  case True
  with assms(2) have "ts = []" by simp
  with True assms(1) show ?thesis by (simp add: fastest_trip_from_def)
next
  case False
  with assms show ?thesis by (simp add: fastest_trip_from_def)
qed

lemma fastest_trip_from_index_error:
  assumes "\<exists>x \<in> set (case pot of None \<Rightarrow> map Loc (settlements c) | Some p \<Rightarrow> p).
             resolve c x = Inl IndexError"
  shows "fastest_trip_from lm c cur pot = Inl IndexError"
  using process_candidates_error [OF assms, of "[]"] by (simp add: fastest_trip_from_def)

lemma fastest_trip_from_spec:
  assumes res: "list_all2 (\<lambda>x l. resolve c x = Inr l)
                  (case pot of None \<Rightarrow> map Loc (settlements c) | Some p \<Rightarrow> p) ls"
    and fin: "\<forall>l. remaining_candidate ls cur l \<longrightarrow>
                Country_travel_time lm c cur l \<noteq> Inl OverflowError
                \<and> Country_travel_time lm c cur l \<noteq> Inr NaN"
  shows "((\<forall>l. remaining_candidate ls cur l \<longrightarrow> (\<forall>t. Country_travel_time lm c cur l \<noteq> Inr t))
            \<longrightarrow> fastest_trip_from lm c cur pot = Inr None)
       \<and> ((\<exists>l t. remaining_candidate ls cur l \<and> Country_travel_time lm c cur l = Inr t)
            \<longrightarrow> (\<exists>l t. fastest_trip_from lm c cur pot = Inr (Some (l, t))
                  \<and> remaining_candidate ls cur l \<and> Country_travel_time lm c cur l = Inr t
                  \<and> (\<forall>l' t'. remaining_candidate ls cur l'
                          \<and> Country_travel_time lm c cur l' = Inr t'
                        \<longrightarrow> \<not> key_lt (t', name l', region l') (t, name l, region l))))"
proof -
  let ?p = "case pot of None \<Rightarrow> map Loc (settlements c) | Some p \<Rightarrow> p"
  let ?tt = "Country_travel_time lm c cur"
  define s where "s = foldl (\<lambda>s x. set_add x s) [] ls"
  have pc: "process_candidates c ?p [] = Inr s"
    using process_candidates_resolved [OF res, of "[]"] by (simp add: s_def)
  have rem: "set (set_discard cur s) = {l. remaining_candidate ls cur l}"
    by (rule set_discard_py_set [OF res pc])
  have "\<forall>l \<in> set (set_discard cur s). \<forall>e. ?tt l = Inl e \<longrightarrow> e = ValueError"
    using fin rem Country_travel_time_error by blast
  from set_collect_times [OF this] obtain ts
    where ts: "collect_times lm c cur (set_discard cur s) = Inr ts"
      and st: "set ts = {(l, t). remaining_candidate ls cur l \<and> ?tt l = Inr t}"
    using rem by auto
  note unf = fastest_trip_from_unfold [OF pc ts]
  have nonan: "\<forall>z \<in> set ts. snd z \<noteq> NaN" using st fin by auto
  show ?thesis
  proof (intro conjI impI)
    assume "\<forall>l. remaining_candidate ls cur l \<longrightarrow> (\<forall>t. ?tt l \<noteq> Inr t)"
    with st have "set ts = {}" by auto
    then show "fastest_trip_from lm c cur pot = Inr None" using unf by simp
  next
    assume "\<exists>l t. remaining_candidate ls cur l \<and> ?tt l = Inr t"
    with st have ne: "ts \<noteq> []" by auto
    obtain l t where lt: "hd (py_sorted ts) = (l, t)" by (cases "hd (py_sorted ts)")
    from hd_py_sorted_min [OF ne nonan] lt
    have mem: "(l, t) \<in> set ts"
      and least: "\<forall>y \<in> set ts. \<not> key_lt (trip_key y) (trip_key (l, t))" by simp_all
    have "\<forall>l' t'. remaining_candidate ls cur l' \<and> ?tt l' = Inr t'
            \<longrightarrow> \<not> key_lt (t', name l', region l') (t, name l, region l)"
    proof (intro allI impI)
      fix l' t' assume "remaining_candidate ls cur l' \<and> ?tt l' = Inr t'"
      then have "(l', t') \<in> set ts" using st by simp
      with least have "\<not> key_lt (trip_key (l', t')) (trip_key (l, t))" by blast
      then show "\<not> key_lt (t', name l', region l') (t, name l, region l)"
        by (simp add: trip_key_def)
    qed
    moreover have "fastest_trip_from lm c cur pot = Inr (Some (l, t))" using unf ne lt by simp
    moreover have "remaining_candidate ls cur l" "?tt l = Inr t" using mem st by simp_all
    ultimately show "\<exists>l t. fastest_trip_from lm c cur pot = Inr (Some (l, t))
                  \<and> remaining_candidate ls cur l \<and> ?tt l = Inr t
                  \<and> (\<forall>l' t'. remaining_candidate ls cur l' \<and> ?tt l' = Inr t'
                        \<longrightarrow> \<not> key_lt (t', name l', region l') (t, name l, region l))"
      by blast
  qed
qed

lemma key_lt_tie:
  assumes "\<not> key_lt (t', n', g') (t, n, g)" and "feq t' t"
  shows "(n, g) \<le> (n', g')"
  using assms by (auto split: if_splits)

section \<open>Rounding at the example inputs\<close>

lemma rnd_near_1: "rnd (29206669829258403248756220714025 / 324518553658426726783156020576256) = Fin (3242591731706757 / 36028797018963968)"
proof -
  have r: "round_half_even ((29206669829258403248756220714025 / 324518553658426726783156020576256) / 2 powi ((- 4) - 52)) = 6485183463413514"
    by (simp add: round_half_even_def Let_def)
  have "rnd (29206669829258403248756220714025 / 324518553658426726783156020576256) = Fin (of_int 6485183463413514 * 2 powi ((- 4) - 52))"
    by (rule rnd_eval [OF _ _ _ r]) simp_all
  then show ?thesis by simp
qed

lemma rnd_near_2: "rnd (29206669829258446483312643470801 / 324518553658426726783156020576256) = Fin (6485183463413523 / 72057594037927936)"
proof -
  have r: "round_half_even ((29206669829258446483312643470801 / 324518553658426726783156020576256) / 2 powi ((- 4) - 52)) = 6485183463413523"
    by (simp add: round_half_even_def Let_def)
  have "rnd (29206669829258446483312643470801 / 324518553658426726783156020576256) = Fin (of_int 6485183463413523 * 2 powi ((- 4) - 52))"
    by (rule rnd_eval [OF _ _ _ r]) simp_all
  then show ?thesis by simp
qed

lemma rnd_near_3: "rnd (12970366926827037 / 72057594037927936) = Fin (3242591731706759 / 18014398509481984)"
proof -
  have r: "round_half_even ((12970366926827037 / 72057594037927936) / 2 powi ((- 3) - 52)) = 6485183463413518"
    by (simp add: round_half_even_def Let_def)
  have "rnd (12970366926827037 / 72057594037927936) = Fin (of_int 6485183463413518 * 2 powi ((- 3) - 52))"
    by (rule rnd_eval [OF _ _ _ r]) simp_all
  then show ?thesis by simp
qed

lemma rnd_near_4: "rnd (5404319552844595 / 9007199254740992) = Fin (5404319552844595 / 9007199254740992)"
proof -
  have r: "round_half_even ((5404319552844595 / 9007199254740992) / 2 powi ((- 1) - 52)) = 5404319552844595"
    by (simp add: round_half_even_def Let_def)
  have "rnd (5404319552844595 / 9007199254740992) = Fin (of_int 5404319552844595 * 2 powi ((- 1) - 52))"
    by (rule rnd_eval [OF _ _ _ r]) simp_all
  then show ?thesis by simp
qed

lemma rnd_near_5: "rnd (29206669829258424866034432092405 / 162259276829213363391578010288128) = Fin (6485183463413519 / 36028797018963968)"
proof -
  have r: "round_half_even ((29206669829258424866034432092405 / 162259276829213363391578010288128) / 2 powi ((- 3) - 52)) = 6485183463413519"
    by (simp add: round_half_even_def Let_def)
  have "rnd (29206669829258424866034432092405 / 162259276829213363391578010288128) = Fin (of_int 6485183463413519 * 2 powi ((- 3) - 52))"
    by (rule rnd_eval [OF _ _ _ r]) simp_all
  then show ?thesis by simp
qed

lemma rnd_near_6: "rnd (6485183463413519 / 36028797018963968) = Fin (6485183463413519 / 36028797018963968)"
proof -
  have r: "round_half_even ((6485183463413519 / 36028797018963968) / 2 powi ((- 3) - 52)) = 6485183463413519"
    by (simp add: round_half_even_def Let_def)
  have "rnd (6485183463413519 / 36028797018963968) = Fin (of_int 6485183463413519 * 2 powi ((- 3) - 52))"
    by (rule rnd_eval [OF _ _ _ r]) simp_all
  then show ?thesis by simp
qed

lemma rnd_near_7: "rnd (- (1 / 36028797018963968)) = Fin (- (1 / 36028797018963968))"
proof -
  have r: "round_half_even ((- (1 / 36028797018963968)) / 2 powi ((- 55) - 52)) = (- 4503599627370496)"
    by (simp add: round_half_even_def Let_def)
  have "rnd (- (1 / 36028797018963968)) = Fin (of_int (- 4503599627370496) * 2 powi ((- 55) - 52))"
    by (rule rnd_eval [OF _ _ _ r]) simp_all
  then show ?thesis by simp
qed

lemma rnd_far_1: "rnd 100000000000000007389509137611645444708296833711858660068128906548887073921092010805365341566243402461288179095509721638670478716576291338135327285613346072747866891044392242425135137686723533115903815312723131032580422370077033288797267217793752092363004461114670823777538452836166191865189330075854384922624 = Fin 100000000000000001097906362944045541740492309677311846336810682903157585404911491537163328978494688899061249669721172515611590283743140088328307009198146046031271664502933027185697489699588559043338384466165001178426897626212945177628091195786707458122783970171784415105291802893207873272974885715430223118336"
proof -
  have r: "round_half_even (100000000000000007389509137611645444708296833711858660068128906548887073921092010805365341566243402461288179095509721638670478716576291338135327285613346072747866891044392242425135137686723533115903815312723131032580422370077033288797267217793752092363004461114670823777538452836166191865189330075854384922624 / 2 powi (1023 - 52)) = 5010420900022432"
    by (simp add: round_half_even_def Let_def)
  have "rnd 100000000000000007389509137611645444708296833711858660068128906548887073921092010805365341566243402461288179095509721638670478716576291338135327285613346072747866891044392242425135137686723533115903815312723131032580422370077033288797267217793752092363004461114670823777538452836166191865189330075854384922624 = Fin (of_int 5010420900022432 * 2 powi (1023 - 52))"
    by (rule rnd_eval [OF _ _ _ r]) simp_all
  then show ?thesis by simp
qed

lemma rnd_far_2: "rnd 200000000000000002195812725888091083480984619354623692673621365806315170809822983074326657956989377798122499339442345031223180567486280176656614018396292092062543329005866054371394979399177118086676768932330002356853795252425890355256182391573414916245567940343568830210583605786415746545949771430860446236672 = PInf"
  by (rule rnd_overflow) simp

lemma rnd_far_3: "rnd 20000000000000000738950913761164530819618359659685376903845557104301087318694439194433026219410816654893023507374465334628674006699146808342092384896548864 = Fin 20000000000000000738950913761164530819618359659685376903845557104301087318694439194433026219410816654893023507374465334628674006699146808342092384896548864"
proof -
  have r: "round_half_even (20000000000000000738950913761164530819618359659685376903845557104301087318694439194433026219410816654893023507374465334628674006699146808342092384896548864 / 2 powi (512 - 52)) = 6717876107567089"
    by (simp add: round_half_even_def Let_def)
  have "rnd 20000000000000000738950913761164530819618359659685376903845557104301087318694439194433026219410816654893023507374465334628674006699146808342092384896548864 = Fin (of_int 6717876107567089 * 2 powi (512 - 52))"
    by (rule rnd_eval [OF _ _ _ r]) simp_all
  then show ?thesis by simp
qed

lemma rnd_far_4: "rnd 200000000000000014779018275223290889416593667423717320136257813097774147842184021610730683132486804922576358191019443277340957433152582676270654571226692145495733782088784484850270275373447066231807630625446262065160844740154066577594534435587504184726008922229341647555076905672332383730378660151708769845248 = PInf"
  by (rule rnd_overflow) simp

lemma rnd_remote_1: "rnd 9999999999999999394662444250207242350328975537437122472339781620627054208687723630273803080019321330542305583946752893233248807023279528544321615522160248929124666144096269561533145561164738489983397621092322208138630994725213747351190385096618755256077267472586468217736468683611398422884121732612670396695303894425945224331154483477963396905445761715933439520020822843337114038314499908946523848704 = PInf"
  by (rule rnd_overflow) simp

lemma rnd_ulp_1: "rnd (8570441288778507 / 562949953421312) = Fin (8570441288778507 / 562949953421312)"
proof -
  have r: "round_half_even ((8570441288778507 / 562949953421312) / 2 powi (3 - 52)) = 8570441288778507"
    by (simp add: round_half_even_def Let_def)
  have "rnd (8570441288778507 / 562949953421312) = Fin (of_int 8570441288778507 * 2 powi (3 - 52))"
    by (rule rnd_eval [OF _ _ _ r]) simp_all
  then show ?thesis by simp
qed

lemma rnd_ulp_2: "rnd (6212715685957599 / 1125899906842624) = Fin (6212715685957599 / 1125899906842624)"
proof -
  have r: "round_half_even ((6212715685957599 / 1125899906842624) / 2 powi (2 - 52)) = 6212715685957599"
    by (simp add: round_half_even_def Let_def)
  have "rnd (6212715685957599 / 1125899906842624) = Fin (of_int 6212715685957599 * 2 powi (2 - 52))"
    by (rule rnd_eval [OF _ _ _ r]) simp_all
  then show ?thesis by simp
qed

lemma rnd_ulp_3: "rnd (38597836194543599880397625844801 / 2535301200456458802993406410752) = Fin (2142610322194627 / 140737488355328)"
proof -
  have r: "round_half_even ((38597836194543599880397625844801 / 2535301200456458802993406410752) / 2 powi (3 - 52)) = 8570441288778508"
    by (simp add: round_half_even_def Let_def)
  have "rnd (38597836194543599880397625844801 / 2535301200456458802993406410752) = Fin (of_int 8570441288778508 * 2 powi (3 - 52))"
    by (rule rnd_eval [OF _ _ _ r]) simp_all
  then show ?thesis by simp
qed

lemma rnd_ulp_4: "rnd (2142610322194627 / 140737488355328) = Fin (2142610322194627 / 140737488355328)"
proof -
  have r: "round_half_even ((2142610322194627 / 140737488355328) / 2 powi (3 - 52)) = 8570441288778508"
    by (simp add: round_half_even_def Let_def)
  have "rnd (2142610322194627 / 140737488355328) = Fin (of_int 8570441288778508 * 2 powi (3 - 52))"
    by (rule rnd_eval [OF _ _ _ r]) simp_all
  then show ?thesis by simp
qed

lemma rnd_ulp_5: "rnd (- (1 / 562949953421312)) = Fin (- (1 / 562949953421312))"
proof -
  have r: "round_half_even ((- (1 / 562949953421312)) / 2 powi ((- 49) - 52)) = (- 4503599627370496)"
    by (simp add: round_half_even_def Let_def)
  have "rnd (- (1 / 562949953421312)) = Fin (of_int (- 4503599627370496) * 2 powi ((- 49) - 52))"
    by (rule rnd_eval [OF _ _ _ r]) simp_all
  then show ?thesis by simp
qed

lemma rnd_tie_1: "rnd (1 / 3600) = Fin (5124095576030431 / 18446744073709551616)"
proof -
  have r: "round_half_even ((1 / 3600) / 2 powi ((- 12) - 52)) = 5124095576030431"
    by (simp add: round_half_even_def Let_def)
  have "rnd (1 / 3600) = Fin (of_int 5124095576030431 * 2 powi ((- 12) - 52))"
    by (rule rnd_eval [OF _ _ _ r]) simp_all
  then show ?thesis by simp
qed

lemma rnd_tie_2: "rnd (4 / 19) = Fin (948126237341157 / 4503599627370496)"
proof -
  have r: "round_half_even ((4 / 19) / 2 powi ((- 3) - 52)) = 7585009898729256"
    by (simp add: round_half_even_def Let_def)
  have "rnd (4 / 19) = Fin (of_int 7585009898729256 * 2 powi ((- 3) - 52))"
    by (rule rnd_eval [OF _ _ _ r]) simp_all
  then show ?thesis by simp
qed

lemma rnd_tie_3: "rnd (4858289458278201015949960748667 / 83076749736557242056487941267521536) = Fin (2157513926749655 / 36893488147419103232)"
proof -
  have r: "round_half_even ((4858289458278201015949960748667 / 83076749736557242056487941267521536) / 2 powi ((- 15) - 52)) = 8630055706998620"
    by (simp add: round_half_even_def Let_def)
  have "rnd (4858289458278201015949960748667 / 83076749736557242056487941267521536) = Fin (of_int 8630055706998620 * 2 powi ((- 15) - 52))"
    by (rule rnd_eval [OF _ _ _ r]) simp_all
  then show ?thesis by simp
qed

lemma rnd_tie_4: "rnd (2157513926749655 / 36893488147419103232) = Fin (2157513926749655 / 36893488147419103232)"
proof -
  have r: "round_half_even ((2157513926749655 / 36893488147419103232) / 2 powi ((- 15) - 52)) = 8630055706998620"
    by (simp add: round_half_even_def Let_def)
  have "rnd (2157513926749655 / 36893488147419103232) = Fin (of_int 8630055706998620 * 2 powi ((- 15) - 52))"
    by (rule rnd_eval [OF _ _ _ r]) simp_all
  then show ?thesis by simp
qed

lemmas rnd_near = rnd_near_1 rnd_near_2 rnd_near_3 rnd_near_4 rnd_near_5 rnd_near_6 rnd_near_7

lemmas rnd_far = rnd_far_1 rnd_far_2 rnd_far_3 rnd_far_4

lemmas rnd_remote = rnd_remote_1

lemmas rnd_ulp = rnd_ulp_1 rnd_ulp_2 rnd_ulp_3 rnd_ulp_4 rnd_ulp_5

lemmas rnd_tie = rnd_tie_1 rnd_tie_2 rnd_tie_3 rnd_tie_4

section \<open>The model at the example inputs\<close>

lemma py_eq_refl [simp]: "py_eq a a"
  by (simp add: py_eq_iff)

lemma py_in_Nil [simp]: "\<not> py_in x []"
  by (simp add: py_in_def)

lemma py_in_Cons [simp]: "py_in x (y # ys) \<longleftrightarrow> py_eq y x \<or> py_in x ys"
  by (simp add: py_in_def)

lemma set_add_Nil [simp]: "set_add x [] = [x]"
  by (simp add: set_add_def)

lemma py_set_single [simp]: "py_set [x] = [x]"
  by (simp add: py_set_def)

lemma int_truediv_hour: "int_truediv 1 3600 = Inr (Fin (5124095576030431 / 18446744073709551616))"
  by (simp add: int_truediv_def finite_or_overflow_def rnd_tie)

lemma int_truediv_zero [simp]: "int_truediv 0 10 = Inr (Fin 0)"
  by (simp add: int_truediv_def finite_or_overflow_def)

lemmas near_defs = near_depot_def near_settlement_def near_country_def
lemmas far_defs = far_depot_def far_settlement_def far_country_def float_1e154_def
lemmas tie_defs = hub_def tie_a_def tie_b_def tie_country_def

subsection \<open>The Country with radii 0.3 and 0.3000000000000002\<close>

lemma near_init: "Country_init [near_depot, near_settlement] = Inr near_country"
  by (simp add: Country_init_iff depot_key_def near_defs)

lemma near_members:
  "py_in near_depot (all_locations near_country)"
  "py_in near_settlement (all_locations near_country)"
  "py_in near_depot (depots near_country)"
  "\<not> py_eq near_settlement near_depot"
  by (simp_all add: py_eq_iff depots_def near_defs)

lemma near_settlements: "settlements near_country = [near_settlement]"
  "depots near_country = [near_depot]"
  by (simp_all add: settlements_def depots_def near_defs)

lemma near_distance: "distance_to libm_cr near_depot (PyLoc near_settlement) = Inl ValueError"
  by (simp add: distance_to_def near_defs finite_or_overflow_def libm_cr_def fsub_def rnd_near)

lemma near_travel_time:
  "Country_travel_time libm_cr near_country near_depot near_settlement = Inl ValueError"
  by (simp add: Country_travel_time_def near_members near_distance)

lemma near_fastest:
  "fastest_trip_from libm_cr near_country near_depot (Some [Loc near_settlement]) = Inr None"
proof -
  have sd: "set_discard near_depot [near_settlement] = [near_settlement]"
    by (simp add: set_discard_def near_members)
  show ?thesis by (simp add: fastest_trip_from_def Let_def sd near_travel_time)
qed

lemma near_py_set: "py_set (settlements near_country) = [near_settlement]"
  by (simp add: near_settlements)

lemma near_nn_tour: "nn_tour libm_cr near_country near_depot = Inl TypeError"
proof -
  have "nn_loop libm_cr near_country near_depot [near_settlement] [near_depot] (Fin 0)
          = Inl TypeError"
    by (simp add: nn_loop.simps [of libm_cr near_country near_depot "[near_settlement]"] near_fastest)
  then show ?thesis
    by (simp add: nn_tour_def n_settlements_def near_settlements)
qed

lemma near_best: "best_depot_site libm_cr near_country display = Inl TypeError"
  by (simp add: best_depot_site_def near_settlements near_nn_tour)

subsection \<open>The Country with radii 1e154\<close>

lemma far_init: "Country_init [far_depot, far_settlement] = Inr far_country"
  by (simp add: Country_init_iff depot_key_def far_defs)

lemma far_members:
  "py_in far_depot (all_locations far_country)"
  "py_in far_settlement (all_locations far_country)"
  "py_in far_depot (depots far_country)"
  "py_in far_settlement [far_settlement]"
  "\<not> py_eq far_settlement far_depot"
  by (simp_all add: py_eq_iff depots_def far_defs)

lemma far_settlements: "settlements far_country = [far_settlement]"
  "depots far_country = [far_depot]"
  by (simp_all add: settlements_def depots_def far_defs)

lemma far_distance:
  "distance_to libm_cr far_depot (PyLoc far_settlement) = Inr NaN"
  "distance_to libm_cr far_settlement (PyLoc far_depot) = Inr NaN"
  "distance_to libm_cr far_depot (PyLoc far_depot) = Inr NaN"
  by (simp_all add: distance_to_def far_defs finite_or_overflow_def libm_cr_def fsub_def
      inf_of_sign_def rnd_far)

lemma travel_time_fl_NaN: "travel_time_fl NaN 0 n default_speed = Inr NaN"
proof -
  show ?thesis
    by (simp add: travel_time_fl_def int_truediv_hour default_speed_def)
qed

lemma far_travel_time:
  "Country_travel_time libm_cr far_country far_depot far_settlement = Inr NaN"
  "Country_travel_time libm_cr far_country far_settlement far_depot = Inr NaN"
  "Country_travel_time libm_cr far_country far_depot far_depot = Inr NaN"
proof -
  have g: "region far_depot = region far_settlement" by (simp add: far_defs)
  show "Country_travel_time libm_cr far_country far_depot far_settlement = Inr NaN"
    "Country_travel_time libm_cr far_country far_settlement far_depot = Inr NaN"
    "Country_travel_time libm_cr far_country far_depot far_depot = Inr NaN"
    by (simp_all add: Country_travel_time_def far_members far_distance g travel_time_fl_NaN)
qed

lemma far_fastest:
  "fastest_trip_from libm_cr far_country far_depot (Some [Loc far_settlement])
     = Inr (Some (far_settlement, NaN))"
proof -
  have sd: "set_discard far_depot [far_settlement] = [far_settlement]"
    by (simp add: set_discard_def far_members)
  show ?thesis by (simp add: fastest_trip_from_def Let_def sd far_travel_time py_sorted_def)
qed

lemma far_nn_tour:
  "nn_tour libm_cr far_country far_depot = Inr ([far_depot, far_settlement, far_depot], NaN)"
proof -
  have e: "set_discard far_settlement [far_settlement] = []"
    by (simp add: set_discard_def py_eq_iff)
  have "nn_loop libm_cr far_country far_depot [far_settlement] [far_depot] (Fin 0)
          = nn_loop libm_cr far_country far_settlement [] [far_depot, far_settlement] NaN"
    by (simp add: nn_loop.simps [of libm_cr far_country far_depot "[far_settlement]"]
        far_fastest far_members e)
  also have "\<dots> = Inr ([far_depot, far_settlement], NaN, far_settlement)"
    by (simp add: nn_loop.simps [of libm_cr far_country far_settlement "[]"])
  finally show ?thesis
    by (simp add: nn_tour_def n_settlements_def far_settlements far_travel_time)
qed

lemma far_best: "best_depot_site libm_cr far_country display = Inr None"
  by (simp add: best_depot_site_def far_settlements far_nn_tour)

subsection \<open>Radius 1e200, and radius 2.759 with a C library one unit off\<close>

lemma remote_distance: "distance_to libm_cr remote (PyLoc remote) = Inl OverflowError"
  by (simp add: distance_to_def remote_def float_1e200_def finite_or_overflow_def libm_cr_def
      rnd_remote)

lemma ulp_distance: "distance_to libm_ulp place_2759 (PyLoc place_2759) = Inl ValueError"
  by (simp add: distance_to_def place_2759_def float_2759_def finite_or_overflow_def libm_ulp_def
      fsub_def rnd_ulp)

subsection \<open>The Country with two settlements at the same point\<close>

lemma tie_members:
  "py_in hub (all_locations tie_country)"
  "py_in tie_a (all_locations tie_country)"
  "py_in tie_b (all_locations tie_country)"
  by (simp_all add: py_eq_iff tie_defs)

lemma tie_distance:
  "distance_to libm_cr hub (PyLoc tie_a) = Inr (Fin 1)"
  "distance_to libm_cr hub (PyLoc tie_b) = Inr (Fin 1)"
  by (simp_all add: distance_to_def tie_defs finite_or_overflow_def libm_cr_def fsub_def)

lemma tie_travel_time:
  "Country_travel_time libm_cr tie_country hub tie_a = Inr (Fin (2157513926749655 / 36893488147419103232))"
  "Country_travel_time libm_cr tie_country hub tie_b = Inr (Fin (2157513926749655 / 36893488147419103232))"
proof -
  have g: "region hub = ''Plain''" "region tie_a = ''Plain''" "region tie_b = ''Plain''"
    by (simp_all add: tie_defs)
  have t: "travel_time_fl (Fin 1) 0 n default_speed = Inr (Fin (2157513926749655 / 36893488147419103232))" for n
    by (simp add: travel_time_fl_def default_speed_def int_truediv_hour rnd_tie)
  show "Country_travel_time libm_cr tie_country hub tie_a = Inr (Fin (2157513926749655 / 36893488147419103232))"
    "Country_travel_time libm_cr tie_country hub tie_b = Inr (Fin (2157513926749655 / 36893488147419103232))"
    by (simp_all add: Country_travel_time_def tie_members tie_distance g t)
qed

section \<open>The order in which a set is iterated\<close>

text \<open>
  Python iterates a set in an order of its own; the model iterates in the order of
  insertion. For the result of \<^verbatim>\<open>sorted\<close> the order makes no difference: two lists of
  trips with the same elements, no two of them to equal Locations and no time NaN, are
  sorted to the same list.
\<close>

lemma distinct_py_insort:
  "distinct (map k (py_insort x xs)) \<longleftrightarrow> k x \<notin> k ` set xs \<and> distinct (map k xs)"
  by (induction xs) (auto simp: set_py_insort)

lemma distinct_py_sorted:
  assumes "distinct (map k xs)"
  shows "distinct (map k (py_sorted xs))"
proof -
  have "distinct (map k (acc @ xs)) \<Longrightarrow> distinct (map k acc)
          \<Longrightarrow> distinct (map k (foldl (\<lambda>acc x. py_insort x acc) acc xs))
              \<and> set (foldl (\<lambda>acc x. py_insort x acc) acc xs) = set acc \<union> set xs" for acc
  proof (induction xs arbitrary: acc)
    case Nil
    then show ?case by simp
  next
    case (Cons x xs)
    have d: "distinct (map k (py_insort x acc))"
      using Cons.prems by (auto simp: distinct_py_insort)
    have "distinct (map k (py_insort x acc @ xs))"
      using Cons.prems d by (auto simp: set_py_insort)
    from Cons.IH [OF this d] show ?case by (auto simp: set_py_insort)
  qed
  from this [of "[]"] assms show ?thesis by (simp add: py_sorted_def)
qed

lemma py_sorted_order_independent:
  assumes "set xs = set ys"
    and "distinct (map (\<lambda>z. (name (fst z), region (fst z))) xs)"
    and "distinct (map (\<lambda>z. (name (fst z), region (fst z))) ys)"
    and "\<forall>z \<in> set xs. snd z \<noteq> NaN"
  shows "py_sorted xs = py_sorted ys"
proof -
  let ?n = "\<lambda>z. (name (fst z), region (fst z))"
  let ?k = "\<lambda>z. (rank (snd z), name (fst z), region (fst z))"
  have inj: "inj_on ?n (set xs)" using assms(2) by (simp add: distinct_map)
  then have injk: "inj_on ?k (set xs)" by (auto simp: inj_on_def)
  have dk: "distinct (map ?k zs)" if "distinct (map ?n zs)" for zs :: "(location \<times> pyfloat) list"
    using that by (induction zs) auto
  have nan: "\<forall>z \<in> set ys. snd z \<noteq> NaN" using assms(1,4) by simp
  have s1: "sorted (map ?k (py_sorted xs))" by (rule sorted_py_sorted [OF assms(4)])
  have s2: "sorted (map ?k (py_sorted ys))" by (rule sorted_py_sorted [OF nan])
  have d1: "distinct (map ?k (py_sorted xs))" by (rule distinct_py_sorted [OF dk [OF assms(2)]])
  have d2: "distinct (map ?k (py_sorted ys))" by (rule distinct_py_sorted [OF dk [OF assms(3)]])
  have st: "set (map ?k (py_sorted xs)) = set (map ?k (py_sorted ys))"
    using assms(1) by (simp add: set_py_sorted)
  have eq: "map ?k (py_sorted xs) = map ?k (py_sorted ys)"
    by (rule sorted_distinct_set_unique [OF s1 d1 s2 d2 st])
  have "inj_on ?k (set (py_sorted xs) \<union> set (py_sorted ys))"
    using injk assms(1) by (simp add: set_py_sorted)
  then show ?thesis using eq by (rule map_inj_on [rotated])
qed

section \<open>Further examples\<close>

lemmas example_defs = riverwood_def riverwood_moved_def whiterun_def helgen_def test_country_def

lemma proper_examples:
  "proper (ascii_runtime parse) ''test  place'' = ''Test Place''"
  "proper (ascii_runtime parse) ''Region'' = ''Region''"
  "proper (ascii_runtime parse) '' hELLO   wORLD '' = ''Hello World''"
proof -
  have "join_words (map ascii_capitalize (ascii_split ''test  place'' [])) = ''Test Place''"
    "join_words (map ascii_capitalize (ascii_split ''Region'' [])) = ''Region''"
    "join_words (map ascii_capitalize (ascii_split '' hELLO   wORLD '' [])) = ''Hello World''"
    by code_simp+
  then show "proper (ascii_runtime parse) ''test  place'' = ''Test Place''"
    "proper (ascii_runtime parse) ''Region'' = ''Region''"
    "proper (ascii_runtime parse) '' hELLO   wORLD '' = ''Hello World''"
    by (simp_all add: proper_def ascii_runtime_def)
qed

lemma Location_init_example:
  "Location_init (ascii_runtime parse) (PyStr ''test  place'') (PyStr ''Region'')
       (PyFloat (Fin 100)) (PyBool False) (PyBool False)
     = Inr (\<lparr>name = ''Test Place'', region = ''Region'', r = Fin 100, theta = Fin 0,
             depot = False\<rparr>,
            [NameCapitalized ''test  place'' ''Test Place'', StyleNotice])"
  by (simp add: Location_init_def proper_examples Let_def math_pi_def)

lemma int_to_float_overflow: "py_float rt (PyInt (10 ^ 400)) = Inl OverflowError"
proof -
  have "rnd (of_int (10 ^ 400)) = PInf" by (rule rnd_overflow) simp
  then show ?thesis by (simp add: int_to_float_def finite_or_overflow_def)
qed

lemma test_country_init: "Country_init [riverwood, whiterun, helgen] = Inr test_country"
  by (simp add: Country_init_iff depot_key_def example_defs)


section \<open>The claims\<close>

subsection \<open>C1: the tour of a valid Country can raise TypeError\<close>

text \<open>
  Claim C1 says that \<^verbatim>\<open>nn_tour(d)\<close> returns a tour for every Country and every depot
  \<open>d\<close> of it. The code does not: the Country of a depot at radius \<^verbatim>\<open>0.3\<close> and a
  settlement at radius \<^verbatim>\<open>0.3000000000000002\<close>, both at angle 0, is accepted by the
  constructor, and on it rounding leaves the argument of the square root in
  \<^verbatim>\<open>distance_to\<close> negative. \<^verbatim>\<open>math.sqrt\<close> raises \<^verbatim>\<open>ValueError\<close>,
  \<^verbatim>\<open>fastest_trip_from\<close> takes it for the error of a Location outside the Country and
  skips the settlement, and the tour ends in \<^verbatim>\<open>TypeError\<close> at
  \<^verbatim>\<open>total_time += None\<close>.
\<close>

theorem C1_nn_tour_raises_TypeError_after_rounding:
  "Country_init [near_depot, near_settlement] = Inr near_country
   \<and> py_in near_depot (depots near_country)
   \<and> nn_tour libm_cr near_country near_depot = Inl TypeError"
  by (simp add: near_init near_members near_nn_tour)

subsection \<open>C2: the best depot can be an exception or None\<close>

text \<open>
  Claim C2 says that \<^verbatim>\<open>best_depot_site\<close> returns the first depot of least tour time
  for every Country with a depot. On the Country of claim C1 the tour of the only depot
  raises \<^verbatim>\<open>TypeError\<close>, and so does \<^verbatim>\<open>best_depot_site\<close>. On the Country of a depot
  and a settlement at radius \<^verbatim>\<open>1e154\<close> the sum of the two squares overflows, the
  distance and the tour time are NaN, \<^verbatim>\<open>time < best_time\<close> is false, and
  \<^verbatim>\<open>best_depot_site\<close> returns \<^verbatim>\<open>None\<close>.
\<close>

theorem C2_best_depot_site_fails_after_rounding:
  "Country_init [near_depot, near_settlement] = Inr near_country
   \<and> depots near_country = [near_depot]
   \<and> best_depot_site libm_cr near_country display = Inl TypeError
   \<and> Country_init [far_depot, far_settlement] = Inr far_country
   \<and> depots far_country = [far_depot]
   \<and> nn_tour libm_cr far_country far_depot = Inr ([far_depot, far_settlement, far_depot], NaN)
   \<and> best_depot_site libm_cr far_country display = Inr None"
  by (simp add: near_init near_settlements near_best far_init far_settlements far_nn_tour far_best)

subsection \<open>C3: the fastest trip is the least remaining candidate\<close>

text \<open>
  Claim C3, as stated, fails for a collection with an index out of range: the code raises
  \<^verbatim>\<open>IndexError\<close>, as its docstring says, and returns neither \<^verbatim>\<open>(None, None)\<close> nor
  a candidate.
\<close>

theorem C3_fastest_trip_from_minimum_of_remaining_counterexample:
  "length (settlements test_country) = 2
   \<and> fastest_trip_from libm_cr test_country riverwood (Some [Idx 10]) = Inl IndexError"
  by (simp add: fastest_trip_from_def settlements_def example_defs)

text \<open>
  Claim C3, amended. An index out of range among the candidates raises
  \<^verbatim>\<open>IndexError\<close>. Otherwise let \<open>ls\<close> be the Locations the candidates stand for, in
  order. The remaining candidates are the Locations that occur in \<open>ls\<close> with no equal
  Location before them and are not equal to the current location. Provided no travel time
  from the current location to a remaining candidate raises \<^verbatim>\<open>OverflowError\<close> or is
  NaN: when no remaining candidate has a travel time (each raises \<^verbatim>\<open>ValueError\<close>), the
  result is \<^verbatim>\<open>(None, None)\<close>; otherwise the result is a remaining candidate with its
  travel time, no remaining candidate has a smaller key (time, name, region), and a
  remaining candidate with an equal time has a (name, region) that is not smaller.
\<close>

theorem C3_fastest_trip_from_minimum_of_remaining:
  "((\<exists>x \<in> set (case pot of None \<Rightarrow> map Loc (settlements c) | Some p \<Rightarrow> p).
        resolve c x = Inl IndexError)
      \<longrightarrow> fastest_trip_from lm c cur pot = Inl IndexError)
   \<and> (list_all2 (\<lambda>x l. resolve c x = Inr l)
         (case pot of None \<Rightarrow> map Loc (settlements c) | Some p \<Rightarrow> p) ls
       \<and> (\<forall>l. remaining_candidate ls cur l \<longrightarrow>
                Country_travel_time lm c cur l \<noteq> Inl OverflowError
                \<and> Country_travel_time lm c cur l \<noteq> Inr NaN)
      \<longrightarrow> ((\<forall>l. remaining_candidate ls cur l \<longrightarrow> (\<forall>t. Country_travel_time lm c cur l \<noteq> Inr t))
            \<longrightarrow> fastest_trip_from lm c cur pot = Inr None)
        \<and> ((\<exists>l t. remaining_candidate ls cur l \<and> Country_travel_time lm c cur l = Inr t)
            \<longrightarrow> (\<exists>l t. fastest_trip_from lm c cur pot = Inr (Some (l, t))
                  \<and> remaining_candidate ls cur l \<and> Country_travel_time lm c cur l = Inr t
                  \<and> (\<forall>l' t'. remaining_candidate ls cur l'
                          \<and> Country_travel_time lm c cur l' = Inr t'
                        \<longrightarrow> \<not> key_lt (t', name l', region l') (t, name l, region l)
                            \<and> (feq t' t \<longrightarrow> (name l, region l) \<le> (name l', region l'))))))"
proof (intro conjI impI)
  assume "\<exists>x \<in> set (case pot of None \<Rightarrow> map Loc (settlements c) | Some p \<Rightarrow> p).
        resolve c x = Inl IndexError"
  then show "fastest_trip_from lm c cur pot = Inl IndexError"
    by (rule fastest_trip_from_index_error)
next
  assume h: "list_all2 (\<lambda>x l. resolve c x = Inr l)
         (case pot of None \<Rightarrow> map Loc (settlements c) | Some p \<Rightarrow> p) ls
       \<and> (\<forall>l. remaining_candidate ls cur l \<longrightarrow>
                Country_travel_time lm c cur l \<noteq> Inl OverflowError
                \<and> Country_travel_time lm c cur l \<noteq> Inr NaN)"
  assume "\<forall>l. remaining_candidate ls cur l \<longrightarrow> (\<forall>t. Country_travel_time lm c cur l \<noteq> Inr t)"
  with fastest_trip_from_spec [of c pot ls cur lm] h
  show "fastest_trip_from lm c cur pot = Inr None" by blast
next
  assume h: "list_all2 (\<lambda>x l. resolve c x = Inr l)
         (case pot of None \<Rightarrow> map Loc (settlements c) | Some p \<Rightarrow> p) ls
       \<and> (\<forall>l. remaining_candidate ls cur l \<longrightarrow>
                Country_travel_time lm c cur l \<noteq> Inl OverflowError
                \<and> Country_travel_time lm c cur l \<noteq> Inr NaN)"
  assume "\<exists>l t. remaining_candidate ls cur l \<and> Country_travel_time lm c cur l = Inr t"
  with fastest_trip_from_spec [of c pot ls cur lm] h obtain l t
    where r: "fastest_trip_from lm c cur pot = Inr (Some (l, t))"
      "remaining_candidate ls cur l" "Country_travel_time lm c cur l = Inr t"
      and least: "\<forall>l' t'. remaining_candidate ls cur l'
                          \<and> Country_travel_time lm c cur l' = Inr t'
                        \<longrightarrow> \<not> key_lt (t', name l', region l') (t, name l, region l)"
    by blast
  have "\<forall>l' t'. remaining_candidate ls cur l' \<and> Country_travel_time lm c cur l' = Inr t'
          \<longrightarrow> \<not> key_lt (t', name l', region l') (t, name l, region l)
              \<and> (feq t' t \<longrightarrow> (name l, region l) \<le> (name l', region l'))"
    using least key_lt_tie by blast
  with r show "\<exists>l t. fastest_trip_from lm c cur pot = Inr (Some (l, t))
                  \<and> remaining_candidate ls cur l \<and> Country_travel_time lm c cur l = Inr t
                  \<and> (\<forall>l' t'. remaining_candidate ls cur l'
                          \<and> Country_travel_time lm c cur l' = Inr t'
                        \<longrightarrow> \<not> key_lt (t', name l', region l') (t, name l, region l)
                            \<and> (feq t' t \<longrightarrow> (name l, region l) \<le> (name l', region l')))"
    by blast
qed

theorem C3_fastest_trip_from_minimum_of_remaining_witness:
  "fastest_trip_from libm_cr tie_country hub (Some [Loc tie_b, Idx 1, Loc tie_a, Loc hub])
     = Inr (Some (tie_a, Fin (2157513926749655 / 36893488147419103232)))"
proof -
  let ?p = "[Loc tie_b, Idx 1, Loc tie_a, Loc hub]"
  let ?ls = "[tie_b, tie_a, tie_a, hub]"
  let ?tt = "Country_travel_time libm_cr tie_country hub"
  have st: "settlements tie_country = [tie_b, tie_a]" by (simp add: settlements_def tie_defs)
  have res: "list_all2 (\<lambda>x l. resolve tie_country x = Inr l)
               (case Some ?p of None \<Rightarrow> map Loc (settlements tie_country) | Some p \<Rightarrow> p) ?ls"
    by (simp add: st)
  have ne: "\<not> py_eq tie_a hub" "\<not> py_eq tie_b hub" "\<not> py_eq tie_b tie_a"
    by (simp_all add: py_eq_iff tie_defs)
  have rem: "remaining_candidate ?ls hub l \<longleftrightarrow> l = tie_a \<or> l = tie_b" for l
  proof
    assume "remaining_candidate ?ls hub l"
    then obtain pre post where "?ls = pre @ l # post" and nh: "\<not> py_eq l hub"
      by (auto simp: remaining_candidate_def)
    then have "l \<in> set ?ls" by (metis in_set_conv_decomp)
    with nh show "l = tie_a \<or> l = tie_b" by auto
  next
    assume "l = tie_a \<or> l = tie_b"
    then show "remaining_candidate ?ls hub l"
    proof
      assume l: "l = tie_a"
      have "?ls = [tie_b] @ tie_a # [tie_a, hub] \<and> (\<forall>y \<in> set [tie_b]. \<not> py_eq y tie_a)"
        using ne by simp
      then show ?thesis unfolding remaining_candidate_def l using ne by blast
    next
      assume l: "l = tie_b"
      have "?ls = [] @ tie_b # [tie_a, tie_a, hub] \<and> (\<forall>y \<in> set []. \<not> py_eq y tie_b)"
        by simp
      then show ?thesis unfolding remaining_candidate_def l using ne by blast
    qed
  qed
  have fin: "\<forall>l. remaining_candidate ?ls hub l \<longrightarrow>
                ?tt l \<noteq> Inl OverflowError \<and> ?tt l \<noteq> Inr NaN"
    using tie_travel_time by (auto simp: rem)
  have ex: "\<exists>l t. remaining_candidate ?ls hub l \<and> ?tt l = Inr t"
    using tie_travel_time(1) rem by blast
  from C3_fastest_trip_from_minimum_of_remaining [where pot = "Some ?p" and c = tie_country and lm = libm_cr and cur = hub
      and ls = ?ls] res fin ex
  obtain l t where r: "fastest_trip_from libm_cr tie_country hub (Some ?p) = Inr (Some (l, t))"
    and l: "remaining_candidate ?ls hub l" "?tt l = Inr t"
    and least: "\<forall>l' t'. remaining_candidate ?ls hub l' \<and> ?tt l' = Inr t'
                  \<longrightarrow> \<not> key_lt (t', name l', region l') (t, name l, region l)
                      \<and> (feq t' t \<longrightarrow> (name l, region l) \<le> (name l', region l'))"
    by blast
  from l(1) have "l = tie_a \<or> l = tie_b" by (simp add: rem)
  then show ?thesis
  proof
    assume "l = tie_a"
    with r l(2) tie_travel_time(1) show ?thesis by simp
  next
    assume b: "l = tie_b"
    with l(2) tie_travel_time(2) have t: "t = Fin (2157513926749655 / 36893488147419103232)" by simp
    have "remaining_candidate ?ls hub tie_a" by (simp add: rem)
    with least tie_travel_time(1)
    have "\<not> key_lt (Fin (2157513926749655 / 36893488147419103232), name tie_a, region tie_a) (t, name l, region l)" by blast
    then have False by (simp add: t b tie_defs)
    then show ?thesis ..
  qed
qed

subsection \<open>C4: the travel-time formula\<close>



subsection \<open>C5: a Country has no duplicate Locations\<close>

text \<open>
  Claim C5. Constructing a Country from a list with two Locations equal under \<^verbatim>\<open>==\<close>
  raises \<^verbatim>\<open>ValueError\<close>; constructing from a list without such a pair succeeds, and
  the Country holds the list as it was given: same length, same order.
\<close>

theorem C5_Country_init_rejects_duplicates:
  "((\<exists>i j. i < j \<and> j < length locs \<and> py_eq (locs ! i) (locs ! j))
      \<longrightarrow> Country_init locs = Inl ValueError)
   \<and> ((\<forall>i j. i < j \<and> j < length locs \<longrightarrow> \<not> py_eq (locs ! i) (locs ! j))
      \<longrightarrow> (\<exists>c. Country_init locs = Inr c \<and> all_locations c = locs
             \<and> length (all_locations c) = length locs))"
  by (auto simp: Country_init_iff distinct_keys_nth)

theorem C5_Country_init_rejects_duplicates_witness:
  "py_eq riverwood riverwood_moved
   \<and> Country_init [riverwood, riverwood_moved] = Inl ValueError
   \<and> Country_init [riverwood, whiterun, helgen] = Inr test_country
   \<and> all_locations test_country = [riverwood, whiterun, helgen]"
proof -
  have e: "py_eq riverwood riverwood_moved" by (simp add: py_eq_iff example_defs)
  have dup: "\<exists>i j. i < j \<and> j < length [riverwood, riverwood_moved]
        \<and> py_eq ([riverwood, riverwood_moved] ! i) ([riverwood, riverwood_moved] ! j)"
    by (intro exI [of _ 0] exI [of _ 1]) (simp add: e)
  have "distinct (map depot_key [riverwood, whiterun, helgen])"
    by (simp add: depot_key_def example_defs)
  then have nodup: "\<forall>i j. i < j \<and> j < length [riverwood, whiterun, helgen]
        \<longrightarrow> \<not> py_eq ([riverwood, whiterun, helgen] ! i) ([riverwood, whiterun, helgen] ! j)"
    by (simp only: distinct_keys_nth) blast
  from C5_Country_init_rejects_duplicates [of "[riverwood, riverwood_moved]"] dup
  have a: "Country_init [riverwood, riverwood_moved] = Inl ValueError" by blast
  from C5_Country_init_rejects_duplicates [of "[riverwood, whiterun, helgen]"] nodup
  have "\<exists>c. Country_init [riverwood, whiterun, helgen] = Inr c
          \<and> all_locations c = [riverwood, whiterun, helgen]" by blast
  then have b: "Country_init [riverwood, whiterun, helgen] = Inr test_country"
    by (auto simp: test_country_def)
  show ?thesis using e a b by (simp add: test_country_def)
qed

subsection \<open>C6: equality and hash of Locations\<close>

text \<open>
  Claim C6. Two Locations are equal iff name and region are the same; equal Locations have
  the same hash; changing the radius, the angle or the depot flag of a Location changes
  neither what it is equal to nor its hash; Locations with different names or different
  regions are not equal.
\<close>

theorem C6_Location_eq_hash_name_region:
  "Location_eq a (PyLoc b) = Some (name a = name b \<and> region a = region b)
   \<and> (py_eq a b \<longleftrightarrow> name a = name b \<and> region a = region b)
   \<and> (py_eq a b \<longrightarrow> Location_hash h a = Location_hash h b)
   \<and> py_eq (a\<lparr>r := x, theta := y, depot := z\<rparr>) a
   \<and> Location_hash h (a\<lparr>r := x, theta := y, depot := z\<rparr>) = Location_hash h a
   \<and> (name a \<noteq> name b \<or> region a \<noteq> region b \<longrightarrow> \<not> py_eq a b)"
  by (auto simp: py_eq_iff Location_eq_def Location_hash_def)

theorem C6_Location_eq_hash_name_region_witness:
  "py_eq riverwood riverwood_moved
   \<and> Location_hash (\<lambda>s. int (length s)) riverwood
       = Location_hash (\<lambda>s. int (length s)) riverwood_moved
   \<and> r riverwood \<noteq> r riverwood_moved \<and> theta riverwood \<noteq> theta riverwood_moved
   \<and> depot riverwood \<noteq> depot riverwood_moved
   \<and> name riverwood \<noteq> name whiterun \<and> \<not> py_eq riverwood whiterun
   \<and> region riverwood \<noteq> region helgen \<and> \<not> py_eq riverwood helgen"
proof -
  have e: "py_eq riverwood riverwood_moved" by (simp add: py_eq_iff example_defs)
  have n: "name riverwood \<noteq> name whiterun" "region riverwood \<noteq> region helgen"
    by (simp_all add: example_defs)
  from C6_Location_eq_hash_name_region [of riverwood riverwood_moved "\<lambda>s. int (length s)"] e
  have "Location_hash (\<lambda>s. int (length s)) riverwood
       = Location_hash (\<lambda>s. int (length s)) riverwood_moved" by blast
  moreover from C6_Location_eq_hash_name_region [of riverwood whiterun] n have "\<not> py_eq riverwood whiterun" by blast
  moreover from C6_Location_eq_hash_name_region [of riverwood helgen] n have "\<not> py_eq riverwood helgen" by blast
  moreover have "r riverwood \<noteq> r riverwood_moved" "theta riverwood \<noteq> theta riverwood_moved"
    "depot riverwood \<noteq> depot riverwood_moved" by (simp_all add: example_defs)
  ultimately show ?thesis using e n by simp
qed

subsection \<open>C7: the distance from a Location to itself\<close>

text \<open>
  Claim C7 says that \<^verbatim>\<open>a.distance_to(a)\<close> is 0 and that the travel time from a
  Location to itself is 0; the test suite asserts the same. The code computes the two
  squares with \<^verbatim>\<open>**\<close> and the product with \<^verbatim>\<open>*\<close>, and the two do not cancel on
  every float: at radius \<^verbatim>\<open>1e200\<close> the square raises \<^verbatim>\<open>OverflowError\<close>; at radius
  \<^verbatim>\<open>1e154\<close> the distance and the travel time are NaN; and at radius \<^verbatim>\<open>2.759\<close>,
  on a C library whose \<^verbatim>\<open>pow\<close> returns the float below the nearest one, the argument
  of the square root is negative and \<^verbatim>\<open>distance_to\<close> raises \<^verbatim>\<open>ValueError\<close>.
\<close>

theorem C7_self_distance_is_not_zero:
  "distance_to libm_cr remote (PyLoc remote) = Inl OverflowError
   \<and> distance_to libm_cr far_depot (PyLoc far_depot) = Inr NaN
   \<and> py_in far_depot (all_locations far_country)
   \<and> Country_travel_time libm_cr far_country far_depot far_depot = Inr NaN
   \<and> distance_to libm_ulp place_2759 (PyLoc place_2759) = Inl ValueError"
  by (simp add: remote_distance far_distance far_members far_travel_time ulp_distance)

subsection \<open>C8: the distance to something that is not a Location\<close>

text \<open>
  Claim C8, as stated, fails: for an argument that is not a Location, \<^verbatim>\<open>distance_to\<close>
  raises \<^verbatim>\<open>ValueError\<close>, as its docstring says, and not \<^verbatim>\<open>TypeError\<close>.
\<close>

theorem C8_distance_to_non_location_ValueError_counterexample:
  "distance_to libm_cr riverwood (PyInt 5) = Inl ValueError
   \<and> distance_to libm_cr riverwood (PyInt 5) \<noteq> Inl TypeError"
  by (simp add: distance_to_def)

text \<open>
  Claim C8, amended. For every Location \<open>a\<close> and every argument \<open>x\<close> that is not a
  Location, \<^verbatim>\<open>a.distance_to(x)\<close> raises \<^verbatim>\<open>ValueError\<close>.
\<close>

theorem C8_distance_to_non_location_ValueError:
  "(\<forall>l. x \<noteq> PyLoc l) \<Longrightarrow> distance_to lm a x = Inl ValueError"
  by (cases x) (simp_all add: distance_to_def)

theorem C8_distance_to_non_location_ValueError_witness:
  "distance_to libm_cr riverwood (PyStr ''Helgen'') = Inl ValueError"
proof -
  have h: "\<forall>l. PyStr ''Helgen'' \<noteq> PyLoc l" by simp
  from C8_distance_to_non_location_ValueError [OF h, of libm_cr riverwood] show ?thesis .
qed

subsection \<open>C9: the errors of the Location constructor\<close>

text \<open>
  Claim C9 says that a radius or angle that cannot be converted to a float gives a
  value-class failure, and that a type-class failure comes from the depot flag, the name
  or the region only. The constructor catches the \<^verbatim>\<open>ValueError\<close> of \<^verbatim>\<open>float\<close> and
  raises \<^verbatim>\<open>ValueError\<close> with the message that the value must be convertible, but
  \<^verbatim>\<open>float(None)\<close> raises \<^verbatim>\<open>TypeError\<close>, which the handler does not catch: with a
  boolean depot flag and text for name and region, a radius or an angle \<^verbatim>\<open>None\<close> leaves
  the constructor with \<^verbatim>\<open>TypeError\<close>.
\<close>

theorem C9_Location_init_float_TypeError_escapes:
  "Location_init rt (PyStr ''Test'') (PyStr ''Region'') PyNone (PyFloat (Fin 0)) (PyBool False)
     = Inl TypeError
   \<and> Location_init rt (PyStr ''Test'') (PyStr ''Region'') (PyFloat (Fin 100)) PyNone (PyBool False)
     = Inl TypeError"
  by (simp add: Location_init_def)

subsection \<open>C10: inside the tour, the nearest candidate can be missing\<close>

text \<open>
  Claim C10 says that inside \<^verbatim>\<open>nn_tour\<close>, with settlements left to visit,
  \<^verbatim>\<open>fastest_trip_from\<close> never returns \<^verbatim>\<open>(None, None)\<close>, because the only
  \<^verbatim>\<open>ValueError\<close> it skips is the one for a Location outside the Country. The square
  root raises \<^verbatim>\<open>ValueError\<close> too: in the first iteration of the loop on the Country of
  claim C1 the unvisited set holds the one settlement, which is a member of the Country,
  its travel time from the depot raises \<^verbatim>\<open>ValueError\<close>, and \<^verbatim>\<open>fastest_trip_from\<close>
  returns \<^verbatim>\<open>(None, None)\<close>.
\<close>

theorem C10_fastest_trip_from_returns_None_in_loop:
  "Country_init [near_depot, near_settlement] = Inr near_country
   \<and> py_in near_depot (depots near_country)
   \<and> py_set (settlements near_country) = [near_settlement]
   \<and> py_in near_settlement (all_locations near_country)
   \<and> Country_travel_time libm_cr near_country near_depot near_settlement = Inl ValueError
   \<and> fastest_trip_from libm_cr near_country near_depot
        (Some (map Loc (py_set (settlements near_country)))) = Inr None"
  by (simp add: near_init near_members near_py_set near_travel_time near_fastest)

end
